theory Spec2Isabelle
  imports Complex_Main "HOL-Library.AList"
begin

section \<open>Numbers and exceptions\<close>

text \<open>
  The engine computes with Python floats.  A finite float is modelled as a \<^typ>\<open>real\<close>:
  rounding and overflow are not modelled, so every equation below is an equation of exact
  arithmetic.  An argument that Python allows to be \<^verbatim>\<open>None\<close> is a \<^typ>\<open>real option\<close>.
  Division is that of Python's \<^verbatim>\<open>float\<close>, the type the methods are annotated with: a zero
  divisor raises ZeroDivisionError.  A \<^verbatim>\<open>numpy.float64\<close> in the same place gives an
  infinity or NaN and a warning; the simulation loop, which passes such scalars to the
  sizing, is modelled with that division.
  An exception is a value of the type \<open>error\<close>; \<open>ValidationError\<close> is the class that
  \<^verbatim>\<open>utils/error_handling.py\<close> declares for rejected input, and \<open>ExchangeFailure\<close> stands
  for whatever the exchange library raises.  \<open>NotFinite\<close> is no exception: it marks the
  point where the simulation loop computes a size that is NaN or infinite, from which on
  its figures are not finite and this model does not follow them.
\<close>

datatype error =
  TypeError | ZeroDivisionError | KeyError | ValueError | ValidationError | ExchangeFailure
  | NotFinite

section \<open>The simple risk manager (\<^verbatim>\<open>risk_management/risk_manager.py\<close>)\<close>

record RiskManager =
  max_position_size :: real
  stop_loss :: real
  take_profit :: real

text \<open>The constructor with its default arguments.\<close>

definition RiskManager_default :: RiskManager where
  "RiskManager_default =
     \<lparr>max_position_size = 0.1, stop_loss = 0.02, take_profit = 0.05\<rparr>"

text \<open>
  \<^verbatim>\<open>max_position_value / (volatility * current_price)\<close> raises ZeroDivisionError when the
  product is zero, and so does \<^verbatim>\<open>max_position_value / current_price\<close> when the price is.
  Python's \<^verbatim>\<open>min(a, b)\<close> returns \<open>b\<close> when \<open>b < a\<close> and \<open>a\<close> otherwise.
\<close>

definition py_min :: "real \<Rightarrow> real \<Rightarrow> real" where
  "py_min a b = (if b < a then b else a)"

definition calculate_position_size ::
  "'a RiskManager_scheme \<Rightarrow> real \<Rightarrow> real \<Rightarrow> real \<Rightarrow> error + real" where
  "calculate_position_size rm portfolio_value current_price volatility =
     (let max_position_value = portfolio_value * max_position_size rm in
      if volatility * current_price = 0 then Inl ZeroDivisionError
      else
        let risk_adjusted_size = max_position_value / (volatility * current_price) in
        if current_price = 0 then Inl ZeroDivisionError
        else Inr (py_min risk_adjusted_size (max_position_value / current_price)))"

definition check_stop_loss :: "'a RiskManager_scheme \<Rightarrow> real \<Rightarrow> real \<Rightarrow> int \<Rightarrow> bool" where
  "check_stop_loss rm entry_price current_price position =
     (if position > 0 then current_price < entry_price * (1 - stop_loss rm)
      else if position < 0 then current_price > entry_price * (1 + stop_loss rm)
      else False)"

definition check_take_profit :: "'a RiskManager_scheme \<Rightarrow> real \<Rightarrow> real \<Rightarrow> int \<Rightarrow> bool" where
  "check_take_profit rm entry_price current_price position =
     (if position > 0 then current_price > entry_price * (1 + take_profit rm)
      else if position < 0 then current_price < entry_price * (1 - take_profit rm)
      else False)"

section \<open>The advanced risk manager (\<^verbatim>\<open>risk_management/advanced_risk.py\<close>)\<close>

record PortfolioOptimizer =
  risk_free_rate :: real

text \<open>
  The class \<^verbatim>\<open>RiskManager\<close> of \<^verbatim>\<open>advanced_risk.py\<close> has the three attributes of the simple
  one and three more; the record extends the simple one so that the attribute names stay.
\<close>

record AdvancedRiskManager = RiskManager +
  max_drawdown :: real
  var_confidence :: real
  portfolio_optimizer :: PortfolioOptimizer

definition AdvancedRiskManager_default :: AdvancedRiskManager where
  "AdvancedRiskManager_default =
     \<lparr>max_position_size = 0.1, stop_loss = 0.02, take_profit = 0.05, max_drawdown = 0.25,
      var_confidence = 0.95, portfolio_optimizer = \<lparr>risk_free_rate = 0.02\<rparr>\<rparr>"

text \<open>
  \<^verbatim>\<open>calculate_position_size\<close> of \<^verbatim>\<open>advanced_risk.py\<close>.  \<^verbatim>\<open>1 / (1 + volatility)\<close> raises
  ZeroDivisionError at volatility -1, the two final divisions at price 0.
\<close>

definition advanced_calculate_position_size ::
  "'a AdvancedRiskManager_scheme \<Rightarrow> real \<Rightarrow> real \<Rightarrow> real \<Rightarrow> real option \<Rightarrow> error + real" where
  "advanced_calculate_position_size rm portfolio_value current_price volatility correlation =
     (let max_position_value = portfolio_value * max_position_size rm in
      if 1 + volatility = 0 then Inl ZeroDivisionError
      else
        let vol_adjustment = 1 / (1 + volatility);
            correlation_adjustment = (case correlation of Some c \<Rightarrow> 1 - \<bar>c\<bar> | None \<Rightarrow> 1);
            adjusted_position_value = max_position_value * vol_adjustment * correlation_adjustment
        in if current_price = 0 then Inl ZeroDivisionError
           else Inr (py_min (adjusted_position_value / current_price)
                            (max_position_value / current_price)))"

text \<open>
  \<^verbatim>\<open>calculate_trailing_stop\<close>; Python's \<^verbatim>\<open>max\<close> of three keeps the first of equal values,
  which for reals is the greatest of the three.
\<close>

definition calculate_trailing_stop ::
  "'a AdvancedRiskManager_scheme \<Rightarrow> real \<Rightarrow> real \<Rightarrow> real \<Rightarrow> real \<Rightarrow> real \<Rightarrow> real" where
  "calculate_trailing_stop rm entry_price current_price high_price atr multiplier =
     (let atr_stop = current_price - atr * multiplier;
          initial_stop = entry_price * (1 - stop_loss rm);
          trailing_stop = high_price * (1 - stop_loss rm)
      in max atr_stop (max initial_stop trailing_stop))"

subsection \<open>Sizing on floats that need not be finite\<close>

text \<open>
  For the inputs that are not numbers, the two sizing functions are modelled a second time
  on Python floats with their special values: a finite float (still an exact real),
  the two infinities and NaN.  An argument that may be missing is an option.
  The operations are those of IEEE 754 as Python has them: NaN absorbs, an infinity
  times zero and the difference or quotient of two infinities are NaN, a finite number
  over an infinity is zero, every comparison with NaN is false, and float division by a
  zero raises ZeroDivisionError whatever the dividend is.
\<close>

datatype pyfloat = Fin real | PInf | NInf | NaN

fun sign_of :: "pyfloat \<Rightarrow> real" where
  "sign_of (Fin x) = sgn x"
| "sign_of PInf = 1"
| "sign_of NInf = - 1"
| "sign_of NaN = 0"

definition inf_of_sign :: "real \<Rightarrow> pyfloat" where
  "inf_of_sign s = (if s = 0 then NaN else if s > 0 then PInf else NInf)"

fun fl_add :: "pyfloat \<Rightarrow> pyfloat \<Rightarrow> pyfloat" where
  "fl_add (Fin x) (Fin y) = Fin (x + y)"
| "fl_add NaN b = NaN"
| "fl_add a NaN = NaN"
| "fl_add PInf NInf = NaN"
| "fl_add NInf PInf = NaN"
| "fl_add PInf b = PInf"
| "fl_add NInf b = NInf"
| "fl_add (Fin x) b = b"

fun fl_neg :: "pyfloat \<Rightarrow> pyfloat" where
  "fl_neg (Fin x) = Fin (- x)"
| "fl_neg PInf = NInf"
| "fl_neg NInf = PInf"
| "fl_neg NaN = NaN"

definition fl_sub :: "pyfloat \<Rightarrow> pyfloat \<Rightarrow> pyfloat" where
  "fl_sub a b = fl_add a (fl_neg b)"

fun fl_abs :: "pyfloat \<Rightarrow> pyfloat" where
  "fl_abs (Fin x) = Fin \<bar>x\<bar>"
| "fl_abs PInf = PInf"
| "fl_abs NInf = PInf"
| "fl_abs NaN = NaN"

fun fl_mul :: "pyfloat \<Rightarrow> pyfloat \<Rightarrow> pyfloat" where
  "fl_mul (Fin x) (Fin y) = Fin (x * y)"
| "fl_mul NaN b = NaN"
| "fl_mul a NaN = NaN"
| "fl_mul a b = inf_of_sign (sign_of a * sign_of b)"

fun fl_quotient :: "pyfloat \<Rightarrow> pyfloat \<Rightarrow> pyfloat" where
  "fl_quotient (Fin x) (Fin y) = Fin (x / y)"
| "fl_quotient NaN b = NaN"
| "fl_quotient a NaN = NaN"
| "fl_quotient (Fin x) b = Fin 0"
| "fl_quotient a (Fin y) = inf_of_sign (sign_of a * sgn y)"
| "fl_quotient a b = NaN"

definition fl_div :: "pyfloat \<Rightarrow> pyfloat \<Rightarrow> error + pyfloat" where
  "fl_div a b = (if b = Fin 0 then Inl ZeroDivisionError else Inr (fl_quotient a b))"

fun fl_less :: "pyfloat \<Rightarrow> pyfloat \<Rightarrow> bool" where
  "fl_less (Fin x) (Fin y) = (x < y)"
| "fl_less NaN b = False"
| "fl_less a NaN = False"
| "fl_less NInf b = (b \<noteq> NInf)"
| "fl_less a PInf = (a \<noteq> PInf)"
| "fl_less a b = False"

definition fl_min :: "pyfloat \<Rightarrow> pyfloat \<Rightarrow> pyfloat" where
  "fl_min a b = (if fl_less b a then b else a)"

text \<open>
  The statements of \<^verbatim>\<open>calculate_position_size\<close> in their order; arithmetic on \<^verbatim>\<open>None\<close>
  raises TypeError.
\<close>

definition advanced_calculate_position_size_fl ::
  "'a AdvancedRiskManager_scheme \<Rightarrow> pyfloat option \<Rightarrow> pyfloat option \<Rightarrow> pyfloat option
     \<Rightarrow> pyfloat option \<Rightarrow> error + pyfloat" where
  "advanced_calculate_position_size_fl rm portfolio_value current_price volatility correlation =
     (case portfolio_value of None \<Rightarrow> Inl TypeError | Some pv \<Rightarrow>
      let max_position_value = fl_mul pv (Fin (max_position_size rm)) in
      case volatility of None \<Rightarrow> Inl TypeError | Some vol \<Rightarrow>
      case fl_div (Fin 1) (fl_add (Fin 1) vol) of Inl e \<Rightarrow> Inl e | Inr vol_adjustment \<Rightarrow>
      let correlation_adjustment =
            (case correlation of Some c \<Rightarrow> fl_sub (Fin 1) (fl_abs c) | None \<Rightarrow> Fin 1);
          adjusted_position_value =
            fl_mul (fl_mul max_position_value vol_adjustment) correlation_adjustment
      in
      case current_price of None \<Rightarrow> Inl TypeError | Some cp \<Rightarrow>
      case fl_div adjusted_position_value cp of Inl e \<Rightarrow> Inl e | Inr a \<Rightarrow>
      case fl_div max_position_value cp of Inl e \<Rightarrow> Inl e | Inr b \<Rightarrow>
      Inr (fl_min a b))"

definition calculate_position_size_fl ::
  "'a RiskManager_scheme \<Rightarrow> pyfloat option \<Rightarrow> pyfloat option \<Rightarrow> pyfloat option
     \<Rightarrow> error + pyfloat" where
  "calculate_position_size_fl rm portfolio_value current_price volatility =
     (case portfolio_value of None \<Rightarrow> Inl TypeError | Some pv \<Rightarrow>
      let max_position_value = fl_mul pv (Fin (max_position_size rm)) in
      case volatility of None \<Rightarrow> Inl TypeError | Some vol \<Rightarrow>
      case current_price of None \<Rightarrow> Inl TypeError | Some cp \<Rightarrow>
      case fl_div max_position_value (fl_mul vol cp) of Inl e \<Rightarrow> Inl e
      | Inr risk_adjusted_size \<Rightarrow>
      case fl_div max_position_value cp of Inl e \<Rightarrow> Inl e | Inr b \<Rightarrow>
      Inr (fl_min risk_adjusted_size b))"

subsection \<open>Portfolio risk\<close>

text \<open>
  The table of returns is the list of its columns, one per asset, all of the same length
  and without missing values; the positions are the list of their weights,
  \<^verbatim>\<open>list(positions.values())\<close>.
  \<^verbatim>\<open>returns.mean()\<close> is the mean of each column and \<^verbatim>\<open>returns.cov()\<close> the sample covariance,
  with the divisor periods - 1.
\<close>

definition column_mean :: "real list \<Rightarrow> real" where
  "column_mean xs = sum_list xs / real (length xs)"

definition covariance :: "real list \<Rightarrow> real list \<Rightarrow> real" where
  "covariance xs ys =
     sum_list (map2 (\<lambda>x y. (x - column_mean xs) * (y - column_mean ys)) xs ys)
       / (real (length xs) - 1)"

definition cov :: "real list list \<Rightarrow> real list list" where
  "cov returns = map (\<lambda>xs. map (\<lambda>ys. covariance xs ys) returns) returns"

definition dot :: "real list \<Rightarrow> real list \<Rightarrow> real" where
  "dot xs ys = sum_list (map2 (*) xs ys)"

definition mat_dot :: "real list list \<Rightarrow> real list \<Rightarrow> real list" where
  "mat_dot m v = map (\<lambda>row. dot row v) m"

definition periods :: "real list list \<Rightarrow> nat" where
  "periods returns = (case returns of [] \<Rightarrow> 0 | xs # _ \<Rightarrow> length xs)"

text \<open>
  The objective of \<^verbatim>\<open>PortfolioOptimizer._minimize_variance\<close>, the volatility of the
  covariance times 252; \<^verbatim>\<open>_maximize_sharpe_ratio\<close> and \<^verbatim>\<open>_maximize_diversification\<close> compute
  their \<^verbatim>\<open>portfolio_vol\<close> by the same expression.
\<close>

definition minimize_variance_objective :: "real list list \<Rightarrow> real list \<Rightarrow> real" where
  "minimize_variance_objective returns weights =
     sqrt (dot weights (mat_dot (map (map (\<lambda>c. c * 252)) (cov returns)) weights))"

text \<open>
  The dictionary \<^verbatim>\<open>update_portfolio_risk\<close> returns.  \<open>optimal_weights\<close> is \<open>None\<close> when the
  key is absent; \<open>current_risk\<close> and \<open>sharpe_ratio\<close> are \<open>None\<close> when numpy produces NaN or an
  infinity.
\<close>

record RiskReport =
  rebalance_needed :: bool
  optimal_weights :: "real list option"
  current_risk :: "real option"
  sharpe_ratio :: "real option"

text \<open>
  \<^verbatim>\<open>update_portfolio_risk\<close>.  The optimizer runs scipy's \<^verbatim>\<open>minimize\<close>; the weights it suggests
  for a table of returns are the argument \<open>optimize_portfolio\<close>.  Weights and columns of
  different number raise ValueError.  With columns of fewer than two rows the covariance is
  NaN, and so is the square root of a negative number; a comparison with NaN is false.
\<close>

definition update_portfolio_risk ::
  "'a AdvancedRiskManager_scheme \<Rightarrow> (real list list \<Rightarrow> real list) \<Rightarrow> real list
     \<Rightarrow> real list list \<Rightarrow> error + RiskReport" where
  "update_portfolio_risk rm optimize_portfolio weights returns =
     (if length weights \<noteq> length returns then Inl ValueError
      else
        let portfolio_return = dot (map column_mean returns) weights;
            variance = dot weights (mat_dot (cov returns) weights)
        in
        if (returns \<noteq> [] \<and> periods returns < 2) \<or> variance < 0 then
          Inr \<lparr>rebalance_needed = False, optimal_weights = None, current_risk = None,
               sharpe_ratio = None\<rparr>
        else
          let portfolio_vol = sqrt variance;
              sharpe = (if portfolio_vol = 0 then None
                        else Some ((portfolio_return - 0.02) / portfolio_vol))
          in
          if portfolio_vol > max_drawdown rm then
            Inr \<lparr>rebalance_needed = True, optimal_weights = Some (optimize_portfolio returns),
                 current_risk = Some portfolio_vol, sharpe_ratio = sharpe\<rparr>
          else
            Inr \<lparr>rebalance_needed = False, optimal_weights = None,
                 current_risk = Some portfolio_vol, sharpe_ratio = sharpe\<rparr>)"

section \<open>The execution handler (\<^verbatim>\<open>execution/advanced_executor.py\<close>)\<close>

datatype OrderType = MARKET | LIMIT | STOP_LOSS | TAKE_PROFIT | TRAILING_STOP

datatype OrderSide = BUY | SELL

text \<open>The status strings \<^verbatim>\<open>"pending"\<close>, \<^verbatim>\<open>"filled"\<close>, \<^verbatim>\<open>"cancelled"\<close>, \<^verbatim>\<open>"failed"\<close>.\<close>

datatype OrderStatus = pending | filled | cancelled | failed

text \<open>
  \<open>filled_price\<close> is optional because the live path stores whatever the exchange replied
  under \<^verbatim>\<open>'price'\<close>, which may be \<^verbatim>\<open>None\<close>.  \<open>timestamp\<close> is the reading of the clock.
\<close>

record Order =
  symbol :: string
  order_type :: OrderType
  side :: OrderSide
  quantity :: real
  price :: "real option"
  stop_price :: "real option"
  trailing_percent :: "real option"
  status :: OrderStatus
  filled_quantity :: real
  filled_price :: "real option"
  timestamp :: nat

text \<open>\<^verbatim>\<open>Order.__init__\<close>; the last argument is the value of \<^verbatim>\<open>datetime.now()\<close>.\<close>

definition Order_init ::
  "string \<Rightarrow> OrderType \<Rightarrow> OrderSide \<Rightarrow> real \<Rightarrow> real option \<Rightarrow> real option \<Rightarrow> real option
     \<Rightarrow> nat \<Rightarrow> Order" where
  "Order_init symb ot sd qty pr sp tp now =
     \<lparr>symbol = symb, order_type = ot, side = sd, quantity = qty, price = pr, stop_price = sp,
      trailing_percent = tp, status = pending, filled_quantity = 0, filled_price = Some 0,
      timestamp = now\<rparr>"

text \<open>A value of the position table: the keys \<^verbatim>\<open>'quantity'\<close>, \<^verbatim>\<open>'average_price'\<close>, \<^verbatim>\<open>'realized_pnl'\<close>.\<close>

record Position =
  pos_quantity :: real
  average_price :: real
  realized_pnl :: real

definition no_position :: Position where
  "no_position = \<lparr>pos_quantity = 0, average_price = 0, realized_pnl = 0\<rparr>"

text \<open>An entry of the trade list, with the keys of the dictionary \<^verbatim>\<open>_record_trade\<close> builds.\<close>

record Trade =
  trade_timestamp :: nat
  trade_symbol :: string
  trade_order_type :: OrderType
  trade_side :: OrderSide
  trade_quantity :: real
  trade_price :: real
  trade_commission :: real

text \<open>
  The handler.  \<open>positions\<close> is the dictionary from symbol to position, kept as an association
  list in insertion order.  \<open>live\<close> is the test \<^verbatim>\<open>config.get('trading.mode') == 'live'\<close> on the
  module's configuration; the default configuration has no such key, so it is false.
  The exchange connection is not part of the record: what the exchange answers to one call
  is an argument of that call.
\<close>

record ExecutionHandler =
  commission :: real
  slippage :: real
  positions :: "(string \<times> Position) list"
  orders :: "Order list"
  trades :: "Trade list"
  live :: bool

definition ExecutionHandler_init :: "real \<Rightarrow> real \<Rightarrow> bool \<Rightarrow> ExecutionHandler" where
  "ExecutionHandler_init c s l =
     \<lparr>commission = c, slippage = s, positions = [], orders = [], trades = [], live = l\<rparr>"

text \<open>
  A method that mutates the handler and may raise returns the handler as the call leaves it,
  with the exception if there is one.

  \<^verbatim>\<open>_update_positions\<close>: the arithmetic on a missing fill price raises TypeError before
  anything is written; \<^verbatim>\<open>del self.positions[order.symbol]\<close> raises KeyError when the symbol
  has no entry, and then only the fresh default dictionary was written to.
\<close>

definition update_positions :: "ExecutionHandler \<Rightarrow> Order \<Rightarrow> ExecutionHandler \<times> error option" where
  "update_positions h ord =
     (if status ord \<noteq> filled then (h, None)
      else
        let position = (case map_of (positions h) (symbol ord) of
                          Some p \<Rightarrow> p | None \<Rightarrow> no_position) in
        case filled_price ord of
          None \<Rightarrow> (h, Some TypeError)
        | Some fp \<Rightarrow>
            let position' =
              (if side ord = BUY then
                 let total_cost = pos_quantity position * average_price position
                                    + filled_quantity ord * fp;
                     new_quantity = pos_quantity position + filled_quantity ord
                 in position\<lparr>average_price :=
                                (if new_quantity > 0 then total_cost / new_quantity else 0),
                              pos_quantity := new_quantity\<rparr>
               else
                 let pnl = (fp - average_price position) * filled_quantity ord
                 in position\<lparr>realized_pnl := realized_pnl position + pnl,
                              pos_quantity := pos_quantity position - filled_quantity ord\<rparr>)
            in
            if pos_quantity position' = 0 then
              (if map_of (positions h) (symbol ord) = None then (h, Some KeyError)
               else (h\<lparr>positions := AList.delete (symbol ord) (positions h)\<rparr>, None))
            else (h\<lparr>positions := AList.update (symbol ord) position' (positions h)\<rparr>, None))"

definition record_trade :: "ExecutionHandler \<Rightarrow> Order \<Rightarrow> ExecutionHandler \<times> error option" where
  "record_trade h ord =
     (if status ord \<noteq> filled then (h, None)
      else
        case filled_price ord of
          None \<Rightarrow> (h, Some TypeError)
        | Some fp \<Rightarrow>
            let trade = \<lparr>trade_timestamp = timestamp ord, trade_symbol = symbol ord,
                         trade_order_type = order_type ord, trade_side = side ord,
                         trade_quantity = filled_quantity ord, trade_price = fp,
                         trade_commission = filled_quantity ord * fp * commission h\<rparr>
            in (h\<lparr>trades := trades h @ [trade]\<rparr>, None))"

text \<open>
  \<^verbatim>\<open>_execute_simulated_order\<close> mutates the order it is given, so the order comes back with
  the handler.  Multiplying or comparing a price that is \<^verbatim>\<open>None\<close> raises TypeError; an order
  is a buy or a sell, so a limit order always reaches one of the two comparisons.
\<close>

definition execute_simulated_order ::
  "ExecutionHandler \<Rightarrow> Order \<Rightarrow> (ExecutionHandler \<times> Order) \<times> error option" where
  "execute_simulated_order h ord =
     (let slippage_factor = 1 + slippage h * (if side ord = BUY then 1 else - 1) in
      case
        (if order_type ord = MARKET then
           (case price ord of
              None \<Rightarrow> Inl TypeError
            | Some p \<Rightarrow> Inr (ord\<lparr>filled_price := Some (p * slippage_factor), status := filled,
                                 filled_quantity := quantity ord\<rparr>))
         else if order_type ord = LIMIT then
           (case (price ord, stop_price ord) of
              (Some p, Some sp) \<Rightarrow>
                if (side ord = BUY \<and> p \<ge> sp) \<or> (side ord = SELL \<and> p \<le> sp)
                then Inr (ord\<lparr>filled_price := Some p, status := filled,
                               filled_quantity := quantity ord\<rparr>)
                else Inr (ord\<lparr>status := pending\<rparr>)
            | _ \<Rightarrow> Inl TypeError)
         else Inr ord)
      of
        Inl e \<Rightarrow> ((h, ord), Some e)
      | Inr ord' \<Rightarrow>
          (case update_positions h ord' of
             (h', Some e) \<Rightarrow> ((h', ord'), Some e)
           | (h', None) \<Rightarrow>
               (case record_trade h' ord' of (h'', r) \<Rightarrow> ((h'', ord'), r))))"

text \<open>
  What the exchange does with one \<^verbatim>\<open>create_order\<close> request: it raises, it answers with a
  dictionary without the key \<^verbatim>\<open>'price'\<close>, or it answers with a price, possibly \<^verbatim>\<open>None\<close>.
\<close>

datatype exchange_reply = ExchangeRaises | ReplyWithoutPrice | ReplyPrice "real option"

text \<open>
  \<^verbatim>\<open>_execute_live_order\<close>: every exception inside the \<^verbatim>\<open>try\<close> block sets the status to
  \<^verbatim>\<open>"failed"\<close> and is raised again.
\<close>

definition execute_live_order ::
  "ExecutionHandler \<Rightarrow> exchange_reply \<Rightarrow> Order \<Rightarrow> (ExecutionHandler \<times> Order) \<times> error option" where
  "execute_live_order h reply ord =
     (case reply of
        ExchangeRaises \<Rightarrow> ((h, ord\<lparr>status := failed\<rparr>), Some ExchangeFailure)
      | ReplyWithoutPrice \<Rightarrow>
          ((h, ord\<lparr>status := failed, filled_quantity := quantity ord\<rparr>), Some KeyError)
      | ReplyPrice rp \<Rightarrow>
          let ord' = ord\<lparr>status := filled, filled_quantity := quantity ord, filled_price := rp\<rparr>
          in case update_positions h ord' of
               (h', Some e) \<Rightarrow> ((h', ord'\<lparr>status := failed\<rparr>), Some e)
             | (h', None) \<Rightarrow>
                 (case record_trade h' ord' of
                    (h'', Some e) \<Rightarrow> ((h'', ord'\<lparr>status := failed\<rparr>), Some e)
                  | (h'', None) \<Rightarrow> ((h'', ord'), None)))"

text \<open>
  \<^verbatim>\<open>create_order\<close>.  When the execution raises, the exception leaves \<^verbatim>\<open>create_order\<close> before
  the order is appended or returned, so the caller gets the exception and no order.
\<close>

definition create_order ::
  "ExecutionHandler \<Rightarrow> exchange_reply \<Rightarrow> nat \<Rightarrow> string \<Rightarrow> OrderType \<Rightarrow> OrderSide \<Rightarrow> real
     \<Rightarrow> real option \<Rightarrow> real option \<Rightarrow> real option \<Rightarrow> ExecutionHandler \<times> (error + Order)" where
  "create_order h reply now symb ot sd qty pr sp tp =
     (let order = Order_init symb ot sd qty pr sp tp now in
      case (if live h then execute_live_order h reply order
            else execute_simulated_order h order) of
        ((h', order'), Some e) \<Rightarrow> (h', Inl e)
      | ((h', order'), None) \<Rightarrow> (h'\<lparr>orders := orders h' @ [order']\<rparr>, Inr order'))"

definition get_position :: "ExecutionHandler \<Rightarrow> string \<Rightarrow> Position" where
  "get_position h symb =
     (case map_of (positions h) symb of Some p \<Rightarrow> p | None \<Rightarrow> no_position)"

text \<open>\<^verbatim>\<open>if symbol:\<close> is false for \<^verbatim>\<open>None\<close> and for the empty string.\<close>

definition get_open_orders :: "ExecutionHandler \<Rightarrow> string option \<Rightarrow> Order list" where
  "get_open_orders h symb =
     (let open_orders = filter (\<lambda>ord. status ord = pending) (orders h) in
      case symb of
        None \<Rightarrow> open_orders
      | Some s \<Rightarrow> if s = [] then open_orders
                  else filter (\<lambda>ord. symbol ord = s) open_orders)"

text \<open>
  \<^verbatim>\<open>cancel_order\<close> reads the configuration and writes to the order only.  In live mode the
  argument \<^verbatim>\<open>order.id\<close> of the exchange call is evaluated inside the \<^verbatim>\<open>try\<close> block;
  \<^verbatim>\<open>Order\<close> has no attribute \<^verbatim>\<open>id\<close>, the AttributeError is caught and the method returns
  \<^verbatim>\<open>False\<close>.
\<close>

definition cancel_order :: "ExecutionHandler \<Rightarrow> Order \<Rightarrow> bool \<times> Order" where
  "cancel_order h ord =
     (if status ord \<noteq> pending then (False, ord)
      else if live h then (False, ord)
      else (True, ord\<lparr>status := cancelled\<rparr>))"

text \<open>
  The list \<open>orders\<close> holds the very objects \<^verbatim>\<open>create_order\<close> returned, so cancelling the
  \<open>i\<close>-th of them changes the list at \<open>i\<close>.
\<close>

definition cancel_stored_order :: "ExecutionHandler \<Rightarrow> nat \<Rightarrow> bool \<times> ExecutionHandler" where
  "cancel_stored_order h i =
     (case cancel_order h (orders h ! i) of
        (ok, ord') \<Rightarrow> (ok, h\<lparr>orders := (orders h)[i := ord']\<rparr>))"

definition get_trade_history :: "ExecutionHandler \<Rightarrow> Trade list" where
  "get_trade_history h = trades h"

fun portfolio_value_loop :: "(string \<times> Position) list \<Rightarrow> (string \<rightharpoonup> real) \<Rightarrow> real \<Rightarrow> real" where
  "portfolio_value_loop [] current_prices portfolio_value = portfolio_value"
| "portfolio_value_loop ((symb, position) # rest) current_prices portfolio_value =
     (case current_prices symb of
        Some p \<Rightarrow> portfolio_value_loop rest current_prices
                    (portfolio_value + pos_quantity position * p)
      | None \<Rightarrow> portfolio_value_loop rest current_prices portfolio_value)"

definition calculate_portfolio_value :: "ExecutionHandler \<Rightarrow> (string \<rightharpoonup> real) \<Rightarrow> real" where
  "calculate_portfolio_value h current_prices =
     portfolio_value_loop (positions h) current_prices 0"

text \<open>
  A client of the handler makes calls one after the other.  \<open>Cancel_stored i\<close> cancels the
  \<open>i\<close>-th order of the list \<open>orders\<close>, \<open>Cancel_other\<close> an order object the handler does not
  hold.  A call that raises leaves the handler as the exception found it, and the client goes on.
\<close>

datatype call =
    Create_order exchange_reply nat string OrderType OrderSide real "real option" "real option"
      "real option"
  | Cancel_stored nat
  | Cancel_other Order
  | Get_position string
  | Get_open_orders "string option"
  | Get_trade_history
  | Calculate_portfolio_value "string \<rightharpoonup> real"

fun perform :: "ExecutionHandler \<Rightarrow> call \<Rightarrow> ExecutionHandler" where
  "perform h (Create_order reply now symb ot sd qty pr sp tp) =
     fst (create_order h reply now symb ot sd qty pr sp tp)"
| "perform h (Cancel_stored i) =
     (if i < length (orders h) then snd (cancel_stored_order h i) else h)"
| "perform h (Cancel_other ord) = h"
| "perform h (Get_position symb) = h"
| "perform h (Get_open_orders symb) = h"
| "perform h Get_trade_history = h"
| "perform h (Calculate_portfolio_value current_prices) = h"

text \<open>
  Every order the handler holds is filled: what holds of a handler in live mode, whose
  \<^verbatim>\<open>create_order\<close> returns and stores an order only after the exchange filled it.
\<close>

definition stored_orders_filled :: "ExecutionHandler \<Rightarrow> bool" where
  "stored_orders_filled h = (\<forall>ord \<in> set (orders h). status ord = filled)"

text \<open>The invariant of the position table: no entry has the quantity 0.\<close>

definition no_zero_position :: "ExecutionHandler \<Rightarrow> bool" where
  "no_zero_position h = (\<forall>(symb, position) \<in> set (positions h). pos_quantity position \<noteq> 0)"

text \<open>
  A handler without slippage that bought 10 at 100 and then sold 20 at 100: it is short 10.
\<close>

definition short_book :: ExecutionHandler where
  "short_book =
     fst (create_order
       (fst (create_order (ExecutionHandler_init 0.001 0 False) ExchangeRaises 0
               ''AAPL'' MARKET BUY 10 (Some 100) None None))
       ExchangeRaises 1 ''AAPL'' MARKET SELL 20 (Some 100) None None)"

text \<open>A handler without slippage that bought 10 at 100: it is long 10.\<close>

definition long_book :: ExecutionHandler where
  "long_book =
     fst (create_order (ExecutionHandler_init 0.001 0 False) ExchangeRaises 0
            ''AAPL'' MARKET BUY 10 (Some 100) None None)"

text \<open>An order as the simulated path has marked it once it is filled.\<close>

definition filled_order :: "OrderSide \<Rightarrow> real \<Rightarrow> real \<Rightarrow> Order" where
  "filled_order sd qty fp =
     (Order_init ''AAPL'' MARKET sd qty (Some fp) None None 1)
       \<lparr>filled_price := Some fp, status := filled, filled_quantity := qty\<rparr>"

section \<open>The simple executor (\<^verbatim>\<open>execution/executor.py\<close>)\<close>

text \<open>
  A value of the executor's position table has the keys \<^verbatim>\<open>'signal'\<close>, \<^verbatim>\<open>'price'\<close> and
  \<^verbatim>\<open>'size'\<close>; a trade has \<^verbatim>\<open>'timestamp'\<close>, \<^verbatim>\<open>'symbol'\<close>, \<^verbatim>\<open>'action'\<close>, \<^verbatim>\<open>'price'\<close>, \<^verbatim>\<open>'size'\<close>,
  \<^verbatim>\<open>'commission'\<close> and \<^verbatim>\<open>'pnl'\<close>.  The fields carry a prefix because the handler's records
  use the same names.
\<close>

record SimplePosition =
  pos_signal :: int
  pos_price :: real
  pos_size :: real

datatype TradeAction = buy | sell

record ExecutedTrade =
  tr_timestamp :: nat
  tr_symbol :: string
  tr_action :: TradeAction
  tr_price :: real
  tr_size :: real
  tr_commission :: real
  tr_pnl :: real

record Executor =
  ex_commission :: real
  ex_positions :: "(string \<times> SimplePosition) list"
  ex_trades :: "ExecutedTrade list"

definition Executor_init :: "real \<Rightarrow> Executor" where
  "Executor_init c = \<lparr>ex_commission = c, ex_positions = [], ex_trades = []\<rparr>"

definition calculate_pnl :: "Executor \<Rightarrow> string \<Rightarrow> real \<Rightarrow> real \<Rightarrow> real \<Rightarrow> int \<Rightarrow> real" where
  "calculate_pnl ex symb entry_price exit_price sz signal =
     (let gross_pnl = (exit_price - entry_price) * sz * of_int signal;
          commission_paid = (entry_price + exit_price) * sz * ex_commission ex
      in gross_pnl - commission_paid)"

text \<open>
  \<^verbatim>\<open>execute_trade\<close>: a signal that differs from the one of the open position closes it
  and the trade gets the PnL of the whole position; the same signal adds to the position;
  without a position one is opened.  The trade is appended to the history and returned.
\<close>

definition execute_trade ::
  "Executor \<Rightarrow> string \<Rightarrow> int \<Rightarrow> real \<Rightarrow> real \<Rightarrow> nat \<Rightarrow> Executor \<times> ExecutedTrade" where
  "execute_trade ex symb signal prc sz ts =
     (let trade = (\<lambda>pnl. \<lparr>tr_timestamp = ts, tr_symbol = symb,
                          tr_action = (if signal > 0 then buy else sell),
                          tr_price = prc, tr_size = sz,
                          tr_commission = prc * sz * ex_commission ex, tr_pnl = pnl\<rparr>)
      in
      case map_of (ex_positions ex) symb of
        Some pos \<Rightarrow>
          if signal \<noteq> pos_signal pos then
            let t = trade (calculate_pnl ex symb (pos_price pos) prc (pos_size pos)
                             (pos_signal pos))
            in (ex\<lparr>ex_positions := AList.delete symb (ex_positions ex),
                    ex_trades := ex_trades ex @ [t]\<rparr>, t)
          else
            (ex\<lparr>ex_positions :=
                    AList.update symb (pos\<lparr>pos_size := pos_size pos + sz, pos_price := prc\<rparr>)
                      (ex_positions ex),
                  ex_trades := ex_trades ex @ [trade 0]\<rparr>, trade 0)
      | None \<Rightarrow>
          (ex\<lparr>ex_positions :=
                  AList.update symb \<lparr>pos_signal = signal, pos_price = prc, pos_size = sz\<rparr>
                    (ex_positions ex),
                ex_trades := ex_trades ex @ [trade 0]\<rparr>, trade 0))"

section \<open>The simulation loop (\<^verbatim>\<open>backtesting/backtester.py\<close>)\<close>

record Backtester =
  bt_initial_capital :: real
  bt_executor :: Executor

definition Backtester_init :: "real \<Rightarrow> real \<Rightarrow> Backtester" where
  "Backtester_init capital c = \<lparr>bt_initial_capital = capital, bt_executor = Executor_init c\<rparr>"

text \<open>
  What the loop reads at one timestamp: the signal of the strategy and the close of the
  bar.  Fetching the bars and generating the signals are the collaborators' work; the
  series has one bar per timestamp and its numbers are finite.
\<close>

record Bar =
  bar_timestamp :: nat
  bar_signal :: int
  Close :: real

text \<open>
  \<^verbatim>\<open>data['Close'].rolling(window=20).std().loc[timestamp]\<close>, from the closes up to and
  including the bar at \<^verbatim>\<open>timestamp\<close>: NaN (here \<open>None\<close>) while fewer than 20 closes are there,
  then the sample standard deviation, with the divisor 19, of the last 20.
\<close>

definition rolling_std :: "real list \<Rightarrow> real option" where
  "rolling_std closes =
     (if length closes < 20 then None
      else let window = drop (length closes - 20) closes
           in Some (sqrt (covariance window window)))"

text \<open>
  The loop calls \<^verbatim>\<open>calculate_position_size\<close> with the close and the rolling deviation, which
  pandas hands out as \<^verbatim>\<open>numpy.float64\<close>.  On such operands a division by zero raises nothing:
  it gives an infinity, or NaN for zero over zero.  The deviation is never below zero.  At
  deviation 0 and a close other than 0 the first quotient is plus infinity when the cap
  \<^verbatim>\<open>max_position_value / current_price\<close> is above 0, and \<^verbatim>\<open>min\<close> then returns the cap;
  otherwise the first quotient is minus infinity or NaN and \<^verbatim>\<open>min\<close> returns it.  At the
  close 0 both quotients are infinite or NaN.  \<open>None\<close> is a size that is not finite.
\<close>

definition calculate_position_size_np ::
  "'a RiskManager_scheme \<Rightarrow> real \<Rightarrow> real \<Rightarrow> real \<Rightarrow> real option" where
  "calculate_position_size_np rm portfolio_value current_price volatility =
     (let max_position_value = portfolio_value * max_position_size rm in
      if current_price = 0 then None
      else if volatility = 0 then
        (if 0 < max_position_value / current_price
         then Some (max_position_value / current_price) else None)
      else
        let risk_adjusted_size = max_position_value / (volatility * current_price)
        in Some (py_min risk_adjusted_size (max_position_value / current_price)))"

text \<open>The local variables of \<^verbatim>\<open>run\<close> and the executor of the backtester.\<close>

record run_state =
  st_portfolio_value :: real
  st_position :: int
  st_entry_price :: real
  st_executor :: Executor

text \<open>
  The body of the loop, for the bar and the rolling deviation at its timestamp.  The
  deviation is used when a position is entered and nowhere else; a NaN there makes the
  size NaN.  \<^verbatim>\<open>self.executor.positions[symbol]\<close> raises KeyError when the executor holds no
  position for the symbol.
\<close>

definition run_step ::
  "'a RiskManager_scheme \<Rightarrow> string \<Rightarrow> run_state \<Rightarrow> Bar \<Rightarrow> real option
     \<Rightarrow> run_state \<times> error option" where
  "run_step risk_manager symb st bar volatility =
     (let signal = bar_signal bar;
          current_price = Close bar
      in
      if st_position st = 0 \<and> signal \<noteq> 0 then
        (case volatility of
           None \<Rightarrow> (st, Some NotFinite)
         | Some vol \<Rightarrow>
             (case calculate_position_size_np risk_manager (st_portfolio_value st)
                     current_price vol of
                None \<Rightarrow> (st, Some NotFinite)
              | Some sz \<Rightarrow>
                  (case execute_trade (st_executor st) symb signal current_price sz
                          (bar_timestamp bar) of
                     (ex', trade) \<Rightarrow>
                       (\<lparr>st_portfolio_value = st_portfolio_value st - tr_commission trade,
                         st_position = signal, st_entry_price = current_price,
                         st_executor = ex'\<rparr>, None))))
      else if st_position st \<noteq> 0 then
        (if check_stop_loss risk_manager (st_entry_price st) current_price (st_position st)
            \<or> check_take_profit risk_manager (st_entry_price st) current_price (st_position st)
            \<or> signal = - st_position st
         then
           (case map_of (ex_positions (st_executor st)) symb of
              None \<Rightarrow> (st, Some KeyError)
            | Some pos \<Rightarrow>
                (case execute_trade (st_executor st) symb (- st_position st) current_price
                        (pos_size pos) (bar_timestamp bar) of
                   (ex', trade) \<Rightarrow>
                     (\<lparr>st_portfolio_value = st_portfolio_value st + tr_pnl trade,
                       st_position = 0, st_entry_price = 0, st_executor = ex'\<rparr>, None)))
         else (st, None))
      else (st, None))"

text \<open>
  The loop over the series.  \<open>seen\<close> holds the closes of the bars before the current one, so
  that the rolling deviation is computed from the column \<^verbatim>\<open>Close\<close> as \<^verbatim>\<open>run\<close> does.
\<close>

fun run_loop ::
  "'a RiskManager_scheme \<Rightarrow> string \<Rightarrow> run_state \<Rightarrow> real list \<Rightarrow> Bar list
     \<Rightarrow> run_state \<times> error option" where
  "run_loop risk_manager symb st seen [] = (st, None)"
| "run_loop risk_manager symb st seen (bar # bars) =
     (case run_step risk_manager symb st bar (rolling_std (seen @ [Close bar])) of
        (st', Some e) \<Rightarrow> (st', Some e)
      | (st', None) \<Rightarrow> run_loop risk_manager symb st' (seen @ [Close bar]) bars)"

text \<open>
  The dictionary \<^verbatim>\<open>run\<close> returns.  \<open>total_return\<close> is \<open>None\<close> when it is not finite.
\<close>

record Report =
  initial_capital :: real
  final_portfolio_value :: real
  total_return :: "real option"
  total_trades :: nat
  profitable_trades :: nat
  win_rate :: real
  total_pnl :: real
  trade_history :: "ExecutedTrade list"

text \<open>
  \<^verbatim>\<open>run\<close>.  The history is the executor's whole trade list; without trades the data frame
  has no column \<^verbatim>\<open>'pnl'\<close> and both figures are 0, as the sums over the empty list are.
  The total return divides by the initial capital.  When that is 0, the division raises
  ZeroDivisionError if the run made no trade, the portfolio value then still being the
  Python number it started as; after a trade it is a \<^verbatim>\<open>numpy.float64\<close> and the quotient is
  an infinity or NaN.
\<close>

definition run ::
  "Backtester \<Rightarrow> string \<Rightarrow> 'a RiskManager_scheme \<Rightarrow> Bar list \<Rightarrow> Backtester \<times> (error + Report)" where
  "run bt symb risk_manager bars =
     (case run_loop risk_manager symb
             \<lparr>st_portfolio_value = bt_initial_capital bt, st_position = 0, st_entry_price = 0,
              st_executor = bt_executor bt\<rparr> [] bars of
        (st, Some e) \<Rightarrow> (bt\<lparr>bt_executor := st_executor st\<rparr>, Inl e)
      | (st, None) \<Rightarrow>
          let history = ex_trades (st_executor st);
              trades_total = length history;
              profitable = length (filter (\<lambda>t. tr_pnl t > 0) history);
              pnl_sum = sum_list (map tr_pnl history)
          in
          (bt\<lparr>bt_executor := st_executor st\<rparr>,
           if bt_initial_capital bt = 0
                \<and> length history = length (ex_trades (bt_executor bt))
           then Inl ZeroDivisionError
           else Inr \<lparr>initial_capital = bt_initial_capital bt,
                     final_portfolio_value = st_portfolio_value st,
                     total_return =
                       (if bt_initial_capital bt = 0 then None
                        else Some ((st_portfolio_value st - bt_initial_capital bt)
                                     / bt_initial_capital bt)),
                     total_trades = trades_total,
                     profitable_trades = profitable,
                     win_rate = (if trades_total > 0
                                 then real profitable / real trades_total else 0),
                     total_pnl = pnl_sum,
                     trade_history = history\<rparr>))"

text \<open>
  The series of the scenario of the specification.  19 bars without a signal fill the
  rolling window; with the close 100 of the entry bar the 20 closes have the mean 100 and
  the sample deviation 10, which makes the size 10.  The bar after it closes at 110.
\<close>

definition warm_up :: "Bar list" where
  "warm_up =
     map (\<lambda>(t, c). \<lparr>bar_timestamp = t, bar_signal = 0, Close = c\<rparr>)
       (zip [0..<19]
          [130, 70, 105, 95, 105, 95, 100, 100, 100, 100, 100, 100, 100, 100, 100, 100, 100,
           100, 100])"

definition entry_bar :: Bar where
  "entry_bar = \<lparr>bar_timestamp = 19, bar_signal = 1, Close = 100\<rparr>"

definition exit_bar :: Bar where
  "exit_bar = \<lparr>bar_timestamp = 20, bar_signal = - 1, Close = 110\<rparr>"

section \<open>Auxiliary facts\<close>

lemma pair_collapse: "f = (fst f, snd f)"
  by simp

lemma triple_collapse: "f = ((fst (fst f), snd (fst f)), snd f)"
  by simp

section \<open>Stop-loss trigger\<close>



text \<open>
  Claim C7.  \<open>check_stop_loss\<close> answers true for a long position (sign above 0) exactly when
  the current price is strictly below entry times (1 - stop_loss), and for a short position
  (sign below 0) exactly when the current price is strictly above entry times (1 + stop_loss).
  With entry 100 and stop_loss 0.02, a long position triggers at 97.99 and does not at 98.01.
\<close>

theorem check_stop_loss_boundary:
  "(0 < position \<longrightarrow>
      check_stop_loss rm entry_price current_price position
        = (current_price < entry_price * (1 - stop_loss rm)))
   \<and> (position < 0 \<longrightarrow>
      check_stop_loss rm entry_price current_price position
        = (current_price > entry_price * (1 + stop_loss rm)))
   \<and> check_stop_loss RiskManager_default 100 97.99 1
   \<and> \<not> check_stop_loss RiskManager_default 100 98.01 1"
  by (simp add: check_stop_loss_def RiskManager_default_def)

theorem check_stop_loss_boundary_witness:
  "(0::int) < 1 \<and> (-1::int) < 0
   \<and> check_stop_loss RiskManager_default 100 97 1
   \<and> \<not> check_stop_loss RiskManager_default 100 99 1
   \<and> check_stop_loss RiskManager_default 100 103 (-1)
   \<and> \<not> check_stop_loss RiskManager_default 100 101 (-1)"
  using check_stop_loss_boundary [of 1 RiskManager_default 100 97]
        check_stop_loss_boundary [of 1 RiskManager_default 100 99]
        check_stop_loss_boundary [of "-1" RiskManager_default 100 103]
        check_stop_loss_boundary [of "-1" RiskManager_default 100 101]
  by (simp add: RiskManager_default_def)

section \<open>Position sizing\<close>

lemma advanced_size_value:
  assumes "0 \<le> capital" "0 < pr" "0 \<le> vol" "0 \<le> max_position_size rm"
      and "case corr of None \<Rightarrow> True | Some c \<Rightarrow> \<bar>c\<bar> \<le> 1"
  shows "advanced_calculate_position_size rm capital pr vol corr
           = Inr (capital * max_position_size rm
                    * (case corr of Some c \<Rightarrow> 1 - \<bar>c\<bar> | None \<Rightarrow> 1) / ((1 + vol) * pr))"
proof -
  let ?m = "capital * max_position_size rm"
  let ?c = "case corr of Some c \<Rightarrow> 1 - \<bar>c\<bar> | None \<Rightarrow> 1"
  have c: "0 \<le> ?c" "?c \<le> 1" using assms(5) by (auto split: option.splits)
  have m: "0 \<le> ?m" using assms by simp
  have v: "0 < 1 + vol" "1 / (1 + vol) \<le> 1" using assms by simp_all
  have "(1 / (1 + vol)) * ?c \<le> 1 * 1"
    using c v assms by (intro mult_mono) simp_all
  then have "?m * ((1 / (1 + vol)) * ?c) \<le> ?m * 1"
    using m by (intro mult_left_mono) simp_all
  then have le0: "?m * (1 / (1 + vol)) * ?c \<le> ?m"
    by (simp only: mult.assoc mult_1_right)
  have le: "?m * (1 / (1 + vol)) * ?c / pr \<le> ?m / pr"
    by (rule divide_right_mono [OF le0]) (use assms(2) in simp)
  have "py_min (?m * (1 / (1 + vol)) * ?c / pr) (?m / pr) = ?m * (1 / (1 + vol)) * ?c / pr"
    using le by (simp add: py_min_def)
  moreover have "?m * (1 / (1 + vol)) * ?c / pr = ?m * ?c / ((1 + vol) * pr)"
    by simp
  ultimately show ?thesis
    using v assms(2) by (simp add: advanced_calculate_position_size_def Let_def)
qed

lemma advanced_position_size_bounds:
  assumes "0 \<le> capital" "0 < pr" "0 \<le> vol" "vol \<le> vol'" "0 \<le> max_position_size rm"
      and "case corr of None \<Rightarrow> True | Some c \<Rightarrow> \<bar>c\<bar> \<le> 1"
  shows "\<exists>q q'. advanced_calculate_position_size rm capital pr vol corr = Inr q
              \<and> advanced_calculate_position_size rm capital pr vol' corr = Inr q'
              \<and> 0 \<le> q \<and> q \<le> capital * max_position_size rm / pr \<and> q' \<le> q"
proof -
  let ?m = "capital * max_position_size rm"
  let ?c = "case corr of Some c \<Rightarrow> 1 - \<bar>c\<bar> | None \<Rightarrow> 1"
  have c: "0 \<le> ?c" "?c \<le> 1" using assms(6) by (auto split: option.splits)
  have m: "0 \<le> ?m" using assms by simp
  have mc: "0 \<le> ?m * ?c" "?m * ?c \<le> ?m" using m c by (simp_all add: mult_left_le)
  have v': "0 \<le> vol'" using assms by simp
  note q = advanced_size_value [OF assms(1,2,3,5,6)]
  note q' = advanced_size_value [OF assms(1,2) v' assms(5,6)]
  have d: "0 < (1 + vol) * pr" "(1 + vol) * pr \<le> (1 + vol') * pr" "pr \<le> (1 + vol) * pr"
    using assms by (simp_all add: mult_right_mono)
  have 1: "0 \<le> ?m * ?c / ((1 + vol) * pr)" using mc d by simp
  have "?m * ?c / ((1 + vol) * pr) \<le> ?m / pr"
    using mc d assms(2) by (intro frac_le) simp_all
  moreover have "?m * ?c / ((1 + vol') * pr) \<le> ?m * ?c / ((1 + vol) * pr)"
    using mc d by (intro divide_left_mono) simp_all
  ultimately show ?thesis using q q' 1 by simp
qed

lemma simple_position_size_bounds:
  assumes "0 \<le> capital" "0 < pr" "0 < vol" "vol \<le> vol'" "0 \<le> max_position_size rm"
  shows "\<exists>q q'. calculate_position_size rm capital pr vol = Inr q
              \<and> calculate_position_size rm capital pr vol' = Inr q'
              \<and> 0 \<le> q \<and> q \<le> capital * max_position_size rm / pr \<and> q' \<le> q"
proof -
  let ?m = "capital * max_position_size rm"
  have m: "0 \<le> ?m" using assms by simp
  have v': "0 < vol'" using assms by simp
  have val: "calculate_position_size rm capital pr v
               = Inr (py_min (?m / (v * pr)) (?m / pr))" if "0 < v" for v
    using that assms(2) by (simp add: calculate_position_size_def Let_def)
  have cap: "0 \<le> ?m / pr" using m assms(2) by simp
  have nn: "0 \<le> ?m / (v * pr)" if "0 < v" for v using m assms(2) that by simp
  have mono: "?m / (vol' * pr) \<le> ?m / (vol * pr)"
    using m assms by (intro divide_left_mono) (simp_all add: mult_right_mono)
  have "0 \<le> py_min (?m / (vol * pr)) (?m / pr)"
    using cap nn [OF assms(3)] by (simp add: py_min_def)
  moreover have "py_min (?m / (vol * pr)) (?m / pr) \<le> ?m / pr"
    by (simp add: py_min_def)
  moreover have "py_min (?m / (vol' * pr)) (?m / pr) \<le> py_min (?m / (vol * pr)) (?m / pr)"
    using mono by (auto simp add: py_min_def)
  ultimately show ?thesis using val [OF assms(3)] val [OF v'] by simp
qed

text \<open>
  Claim C5.  For capital at least 0, price above 0 and volatility at least 0 the size is
  not negative, at most capital times max_position_size over price, and does not grow with
  the volatility.  \<open>advanced_position_size_bounds\<close> shows it for the advanced risk manager
  and \<open>simple_position_size_bounds\<close> for the simple one at every volatility above 0.  At
  volatility 0 the simple risk manager divides by zero and returns no size.
\<close>

theorem simple_position_size_zero_volatility:
  "calculate_position_size RiskManager_default 100000 100 0 = Inl ZeroDivisionError
   \<and> (\<forall>rm capital pr. calculate_position_size (rm :: RiskManager) capital pr 0
                          = Inl ZeroDivisionError)
   \<and> advanced_calculate_position_size AdvancedRiskManager_default 100000 100 0 None
        = Inr 100"
  by (simp add: calculate_position_size_def advanced_calculate_position_size_def
        AdvancedRiskManager_default_def py_min_def)


section \<open>Sizing inputs that are missing or not finite\<close>

lemma fl_div_error: "fl_div a b = Inl e \<Longrightarrow> e = ZeroDivisionError"
  by (simp add: fl_div_def split: if_splits)

lemma advanced_fl_agrees:
  "advanced_calculate_position_size_fl rm (Some (Fin pv)) (Some (Fin cp)) (Some (Fin vol))
       (map_option Fin corr)
     = map_sum id Fin (advanced_calculate_position_size rm pv cp vol corr)"
  by (cases corr)
     (simp_all add: advanced_calculate_position_size_fl_def advanced_calculate_position_size_def
        fl_div_def fl_min_def py_min_def fl_sub_def Let_def)

lemma simple_fl_agrees:
  "calculate_position_size_fl rm (Some (Fin pv)) (Some (Fin cp)) (Some (Fin vol))
     = map_sum id Fin (calculate_position_size rm pv cp vol)"
  by (simp add: calculate_position_size_fl_def calculate_position_size_def
        fl_div_def fl_min_def py_min_def Let_def)

text \<open>
  Claim C6, as the code has it.  Neither sizing function validates its inputs, and neither
  ever raises ValidationError.  With the capital given, a missing volatility raises
  TypeError in both, and so does a missing price, unless in the advanced one a division by
  zero comes first.  A NaN volatility or price is not rejected by either: with the other
  inputs finite (price not 0 beside a NaN volatility, volatility at least 0 beside a NaN
  price) the size is NaN.  An infinite volatility is not rejected by either: with capital
  at least 0, price above 0 and max_position_size at least 0 the size is 0.
\<close>

theorem sizing_validates_nothing:
  "advanced_calculate_position_size_fl rm pv cp vol corr \<noteq> Inl ValidationError
   \<and> calculate_position_size_fl rm pv cp vol \<noteq> Inl ValidationError
   \<and> (pv \<noteq> None \<and> vol = None \<longrightarrow>
        advanced_calculate_position_size_fl rm pv cp vol corr = Inl TypeError
      \<and> calculate_position_size_fl rm pv cp vol = Inl TypeError)
   \<and> (pv \<noteq> None \<and> vol \<noteq> None \<and> cp = None \<longrightarrow>
        calculate_position_size_fl rm pv cp vol = Inl TypeError
      \<and> (advanced_calculate_position_size_fl rm pv cp vol corr = Inl TypeError
          \<or> advanced_calculate_position_size_fl rm pv cp vol corr = Inl ZeroDivisionError))
   \<and> (p \<noteq> 0 \<longrightarrow>
        advanced_calculate_position_size_fl rm (Some (Fin c)) (Some (Fin p)) (Some NaN) None
          = Inr NaN
      \<and> calculate_position_size_fl rm (Some (Fin c)) (Some (Fin p)) (Some NaN) = Inr NaN)
   \<and> (0 \<le> v \<longrightarrow>
        advanced_calculate_position_size_fl rm (Some (Fin c)) (Some NaN) (Some (Fin v)) None
          = Inr NaN
      \<and> calculate_position_size_fl rm (Some (Fin c)) (Some NaN) (Some (Fin v)) = Inr NaN)
   \<and> (0 \<le> c \<and> 0 < p \<and> 0 \<le> max_position_size rm \<longrightarrow>
        advanced_calculate_position_size_fl rm (Some (Fin c)) (Some (Fin p)) (Some PInf) None
          = Inr (Fin 0)
      \<and> calculate_position_size_fl rm (Some (Fin c)) (Some (Fin p)) (Some PInf) = Inr (Fin 0))"
proof (intro conjI impI)
  show "advanced_calculate_position_size_fl rm pv cp vol corr \<noteq> Inl ValidationError"
    by (auto simp add: advanced_calculate_position_size_fl_def Let_def
          split: option.splits sum.splits dest: fl_div_error)
  show "calculate_position_size_fl rm pv cp vol \<noteq> Inl ValidationError"
    by (auto simp add: calculate_position_size_fl_def Let_def
          split: option.splits sum.splits dest: fl_div_error)
next
  assume "pv \<noteq> None \<and> vol = None"
  then show "advanced_calculate_position_size_fl rm pv cp vol corr = Inl TypeError"
    and "calculate_position_size_fl rm pv cp vol = Inl TypeError"
    by (auto simp add: advanced_calculate_position_size_fl_def calculate_position_size_fl_def)
next
  assume a: "pv \<noteq> None \<and> vol \<noteq> None \<and> cp = None"
  then show "calculate_position_size_fl rm pv cp vol = Inl TypeError"
    by (auto simp add: calculate_position_size_fl_def)
  from a show "advanced_calculate_position_size_fl rm pv cp vol corr = Inl TypeError
          \<or> advanced_calculate_position_size_fl rm pv cp vol corr = Inl ZeroDivisionError"
    by (auto simp add: advanced_calculate_position_size_fl_def Let_def
          split: option.splits sum.splits dest: fl_div_error)
next
  assume "p \<noteq> 0"
  then show "advanced_calculate_position_size_fl rm (Some (Fin c)) (Some (Fin p)) (Some NaN) None
          = Inr NaN"
    and "calculate_position_size_fl rm (Some (Fin c)) (Some (Fin p)) (Some NaN) = Inr NaN"
    by (simp_all add: advanced_calculate_position_size_fl_def calculate_position_size_fl_def
          fl_div_def fl_min_def)
next
  assume "0 \<le> v"
  then show "advanced_calculate_position_size_fl rm (Some (Fin c)) (Some NaN) (Some (Fin v)) None
          = Inr NaN"
    by (simp add: advanced_calculate_position_size_fl_def fl_div_def fl_min_def)
  show "calculate_position_size_fl rm (Some (Fin c)) (Some NaN) (Some (Fin v)) = Inr NaN"
    by (simp add: calculate_position_size_fl_def fl_div_def fl_min_def)
next
  assume a: "0 \<le> c \<and> 0 < p \<and> 0 \<le> max_position_size rm"
  then have "0 \<le> c * max_position_size rm / p" by simp
  then have n: "\<not> c * max_position_size rm / p < 0" by simp
  from a n show "advanced_calculate_position_size_fl rm (Some (Fin c)) (Some (Fin p)) (Some PInf) None
          = Inr (Fin 0)"
    by (simp add: advanced_calculate_position_size_fl_def fl_div_def fl_min_def)
  from a n show "calculate_position_size_fl rm (Some (Fin c)) (Some (Fin p)) (Some PInf) = Inr (Fin 0)"
    by (simp add: calculate_position_size_fl_def fl_div_def fl_min_def inf_of_sign_def)
qed

theorem sizing_validates_nothing_witness:
  "advanced_calculate_position_size_fl AdvancedRiskManager_default
       (Some (Fin 100000)) (Some (Fin 100)) None None = Inl TypeError
   \<and> calculate_position_size_fl AdvancedRiskManager_default
       (Some (Fin 100000)) None (Some (Fin 0.2)) = Inl TypeError
   \<and> advanced_calculate_position_size_fl AdvancedRiskManager_default
       (Some (Fin 100000)) (Some NaN) (Some (Fin 0.2)) None = Inr NaN
   \<and> calculate_position_size_fl AdvancedRiskManager_default
       (Some (Fin 100000)) (Some NaN) (Some (Fin 0.2)) = Inr NaN
   \<and> calculate_position_size_fl AdvancedRiskManager_default
       (Some (Fin 100000)) (Some (Fin 100)) (Some PInf) = Inr (Fin 0)"
  using sizing_validates_nothing
          [where rm = AdvancedRiskManager_default and pv = "Some (Fin 100000)"
             and cp = "Some (Fin 100)" and vol = None and corr = None
             and c = 100000 and p = 100 and v = "0.2"]
        sizing_validates_nothing
          [where rm = AdvancedRiskManager_default and pv = "Some (Fin 100000)"
             and cp = None and vol = "Some (Fin 0.2)" and corr = None
             and c = 100000 and p = 100 and v = "0.2"]
  by (simp add: AdvancedRiskManager_default_def)

text \<open>
  Claim C6 as worded fails: a NaN volatility gives the size NaN and an infinite one the
  size 0, and nothing is raised.
\<close>

theorem nan_volatility_is_sized:
  "advanced_calculate_position_size_fl AdvancedRiskManager_default
       (Some (Fin 100000)) (Some (Fin 100)) (Some NaN) None = Inr NaN
   \<and> advanced_calculate_position_size_fl AdvancedRiskManager_default
       (Some (Fin 100000)) (Some (Fin 100)) (Some PInf) None = Inr (Fin 0)
   \<and> calculate_position_size_fl RiskManager_default
       (Some (Fin 100000)) (Some (Fin 100)) (Some NaN) = Inr NaN"
  by (simp add: advanced_calculate_position_size_fl_def calculate_position_size_fl_def
        fl_div_def fl_min_def AdvancedRiskManager_default_def RiskManager_default_def)


section \<open>Portfolio risk\<close>

lemma cov_example: "cov [[0, 0.02, 0.04]] = [[0.0004]]"
  by (simp add: cov_def covariance_def column_mean_def)

lemma sqrt_example: "sqrt (1 / 2500) = 1 / 50"
  by (rule real_sqrt_unique) (simp_all add: power2_eq_square)

text \<open>
  What \<open>update_portfolio_risk\<close> reports for weights that match the columns of a table with
  at least two rows: the risk is the square root of the weights against the covariance,
  and the flag is set, with the optimizer's weights, exactly when that exceeds
  \<open>max_drawdown\<close>.
\<close>

lemma update_portfolio_risk_rule:
  assumes "length weights = length returns" and "2 \<le> periods returns"
      and "0 \<le> dot weights (mat_dot (cov returns) weights)"
  shows "\<exists>r. update_portfolio_risk rm optimize_portfolio weights returns = Inr r
            \<and> current_risk r = Some (sqrt (dot weights (mat_dot (cov returns) weights)))
            \<and> (rebalance_needed r
                 \<longleftrightarrow> sqrt (dot weights (mat_dot (cov returns) weights)) > max_drawdown rm)
            \<and> optimal_weights r
                 = (if rebalance_needed r then Some (optimize_portfolio returns) else None)"
  using assms by (simp add: update_portfolio_risk_def Let_def)

text \<open>
  Claim C9.  The claim has \<open>current_risk\<close> be the annualized volatility, the square root of
  the weights against 252 times the covariance, and the rebalance flag set exactly when it
  exceeds \<open>max_drawdown\<close>.  For one asset with the returns 0, 0.02 and 0.04 and the weight 1
  the annualized volatility, as the optimizer's objective computes it, is the square root
  of 0.1008 and exceeds the threshold 0.25; \<open>update_portfolio_risk\<close> reports the risk 0.02,
  the volatility of the covariance itself, and asks for no rebalancing.
\<close>

theorem portfolio_risk_not_annualized:
  "update_portfolio_risk AdvancedRiskManager_default optimize_portfolio [1] [[0, 0.02, 0.04]]
     = Inr \<lparr>rebalance_needed = False, optimal_weights = None, current_risk = Some 0.02,
            sharpe_ratio = Some 0\<rparr>
   \<and> minimize_variance_objective [[0, 0.02, 0.04]] [1] = sqrt (0.0004 * 252)
   \<and> max_drawdown AdvancedRiskManager_default < minimize_variance_objective [[0, 0.02, 0.04]] [1]"
proof (intro conjI)
  show "update_portfolio_risk AdvancedRiskManager_default optimize_portfolio [1] [[0, 0.02, 0.04]]
     = Inr \<lparr>rebalance_needed = False, optimal_weights = None, current_risk = Some 0.02,
            sharpe_ratio = Some 0\<rparr>"
    unfolding update_portfolio_risk_def cov_example
    by (simp add: dot_def mat_dot_def periods_def column_mean_def sqrt_example
          AdvancedRiskManager_default_def Let_def)
  show obj: "minimize_variance_objective [[0, 0.02, 0.04]] [1] = sqrt (0.0004 * 252)"
    unfolding minimize_variance_objective_def cov_example
    by (simp add: dot_def mat_dot_def)
  have "(0.25::real)\<^sup>2 < 0.0004 * 252" by (simp add: power2_eq_square)
  then have "0.25 < sqrt (0.0004 * 252)" by (rule real_less_rsqrt)
  then show "max_drawdown AdvancedRiskManager_default
               < minimize_variance_objective [[0, 0.02, 0.04]] [1]"
    unfolding obj by (simp add: AdvancedRiskManager_default_def)
qed


section \<open>The end-to-end scenario\<close>

lemma np_size_agrees:
  "volatility * current_price \<noteq> 0 \<Longrightarrow>
     calculate_position_size rm portfolio_value current_price volatility
       = (case calculate_position_size_np rm portfolio_value current_price volatility of
            Some sz \<Rightarrow> Inr sz | None \<Rightarrow> Inl ZeroDivisionError)
     \<and> calculate_position_size_np rm portfolio_value current_price volatility \<noteq> None"
  by (simp add: calculate_position_size_def calculate_position_size_np_def Let_def)

lemma np_size_zero_deviation:
  "calculate_position_size_np RiskManager_default 100000 100 0 = Some 100"
  by (simp add: calculate_position_size_np_def RiskManager_default_def)

lemma flat_bar_step:
  "bar_signal bar = 0 \<Longrightarrow> st_position st = 0 \<Longrightarrow> run_step rm symb st bar vol = (st, None)"
  by (simp add: run_step_def)

lemma flat_bars_skipped:
  "\<forall>bar \<in> set bars. bar_signal bar = 0 \<Longrightarrow> st_position st = 0
     \<Longrightarrow> run_loop rm symb st seen (bars @ rest)
           = run_loop rm symb st (seen @ map Close bars) rest"
  by (induction bars arbitrary: seen) (simp_all add: flat_bar_step)

lemma warm_up_flat: "\<forall>bar \<in> set warm_up. bar_signal bar = 0"
  by (auto simp add: warm_up_def)

lemma warm_up_closes:
  "map Close warm_up
     = [130, 70, 105, 95, 105, 95, 100, 100, 100, 100, 100, 100, 100, 100, 100, 100, 100,
        100, 100]"
  unfolding warm_up_def by code_simp

lemma sqrt_hundred: "sqrt 100 = 10"
  by (rule real_sqrt_unique) simp_all

lemma entry_volatility:
  "rolling_std
     [130, 70, 105, 95, 105, 95, 100, 100, 100, 100, 100, 100, 100, 100, 100, 100, 100,
      100, 100, Close entry_bar] = Some 10"
  by (simp add: rolling_std_def entry_bar_def covariance_def column_mean_def sqrt_hundred)

lemma entry_step:
  "run_step RiskManager_default ''AAPL''
      \<lparr>st_portfolio_value = 100000, st_position = 0, st_entry_price = 0,
       st_executor = Executor_init (1 / 1000)\<rparr> entry_bar (Some 10)
   = (\<lparr>st_portfolio_value = 99999, st_position = 1, st_entry_price = 100,
       st_executor = \<lparr>ex_commission = 1 / 1000,
          ex_positions = [(''AAPL'', \<lparr>pos_signal = 1, pos_price = 100, pos_size = 10\<rparr>)],
          ex_trades = [\<lparr>tr_timestamp = 19, tr_symbol = ''AAPL'', tr_action = buy, tr_price = 100,
                         tr_size = 10, tr_commission = 1, tr_pnl = 0\<rparr>]\<rparr>\<rparr>, None)"
  by (simp add: run_step_def entry_bar_def RiskManager_default_def
        calculate_position_size_np_def py_min_def execute_trade_def Executor_init_def Let_def)

lemma exit_step:
  "run_step RiskManager_default ''AAPL''
      \<lparr>st_portfolio_value = 99999, st_position = 1, st_entry_price = 100,
       st_executor = \<lparr>ex_commission = 1 / 1000,
          ex_positions = [(''AAPL'', \<lparr>pos_signal = 1, pos_price = 100, pos_size = 10\<rparr>)],
          ex_trades = [\<lparr>tr_timestamp = 19, tr_symbol = ''AAPL'', tr_action = buy, tr_price = 100,
                         tr_size = 10, tr_commission = 1, tr_pnl = 0\<rparr>]\<rparr>\<rparr> exit_bar vol
   = (\<lparr>st_portfolio_value = 100096.9, st_position = 0, st_entry_price = 0,
       st_executor = \<lparr>ex_commission = 1 / 1000,
          ex_positions = [],
          ex_trades = [\<lparr>tr_timestamp = 19, tr_symbol = ''AAPL'', tr_action = buy, tr_price = 100,
                         tr_size = 10, tr_commission = 1, tr_pnl = 0\<rparr>,
                       \<lparr>tr_timestamp = 20, tr_symbol = ''AAPL'', tr_action = sell, tr_price = 110,
                         tr_size = 10, tr_commission = 1.1, tr_pnl = 97.9\<rparr>]\<rparr>\<rparr>, None)"
  by (simp add: run_step_def exit_bar_def RiskManager_default_def check_stop_loss_def
        check_take_profit_def execute_trade_def calculate_pnl_def Let_def)

lemma run_entry_only:
  "snd (run (Backtester_init 100000 0.001) ''AAPL'' RiskManager_default
            (warm_up @ [entry_bar]))
     = Inr \<lparr>initial_capital = 100000, final_portfolio_value = 99999,
             total_return = Some (- 0.00001), total_trades = 1, profitable_trades = 0,
             win_rate = 0, total_pnl = 0,
             trade_history =
               [\<lparr>tr_timestamp = 19, tr_symbol = ''AAPL'', tr_action = buy, tr_price = 100,
                  tr_size = 10, tr_commission = 1, tr_pnl = 0\<rparr>]\<rparr>"
  by (simp add: run_def Backtester_init_def flat_bars_skipped warm_up_flat warm_up_closes
        entry_volatility entry_step Let_def)

lemma run_round_trip:
  "snd (run (Backtester_init 100000 0.001) ''AAPL'' RiskManager_default
            (warm_up @ [entry_bar, exit_bar]))
      = Inr \<lparr>initial_capital = 100000, final_portfolio_value = 100096.9,
              total_return = Some 0.000969, total_trades = 2, profitable_trades = 1,
              win_rate = 0.5, total_pnl = 97.9,
              trade_history =
                [\<lparr>tr_timestamp = 19, tr_symbol = ''AAPL'', tr_action = buy, tr_price = 100,
                   tr_size = 10, tr_commission = 1, tr_pnl = 0\<rparr>,
                 \<lparr>tr_timestamp = 20, tr_symbol = ''AAPL'', tr_action = sell, tr_price = 110,
                   tr_size = 10, tr_commission = 1.1, tr_pnl = 97.9\<rparr>]\<rparr>"
  by (simp add: run_def Backtester_init_def flat_bars_skipped warm_up_flat warm_up_closes
        entry_volatility entry_step exit_step Let_def)

text \<open>
  Claim C2.  With the initial capital 100000 and the commission rate 0.001, the loop enters
  long at 100 with the size 10 and deducts the commission 1.0; the exit at 110 closes the
  whole position with the realized PnL (110 - 100) * 10 - (100 + 110) * 10 * 0.001 = 97.9,
  and the final capital is 100096.9.  The run is that of the default risk manager over the
  warm-up bars, the entry bar and the exit bar; the size 10 comes from the rolling
  deviation 10 that the loop computes from the 20 closes up to the entry.
\<close>

theorem single_round_trip:
  "calculate_pnl (Executor_init 0.001) ''AAPL'' 100 110 10 1
     = (110 - 100) * 10 - (100 + 110) * 10 * 0.001
   \<and> calculate_pnl (Executor_init 0.001) ''AAPL'' 100 110 10 1 = 97.9
   \<and> rolling_std (map Close (warm_up @ [entry_bar])) = Some 10
   \<and> final_portfolio_value
        (projr (snd (run (Backtester_init 100000 0.001) ''AAPL'' RiskManager_default
            (warm_up @ [entry_bar]))))
      = 100000 - 1.0
   \<and> map tr_commission (trade_history
        (projr (snd (run (Backtester_init 100000 0.001) ''AAPL'' RiskManager_default
            (warm_up @ [entry_bar])))))
      = [1.0]
   \<and> snd (run (Backtester_init 100000 0.001) ''AAPL'' RiskManager_default
            (warm_up @ [entry_bar, exit_bar]))
      = Inr \<lparr>initial_capital = 100000, final_portfolio_value = 100096.9,
              total_return = Some 0.000969, total_trades = 2, profitable_trades = 1,
              win_rate = 0.5, total_pnl = 97.9,
              trade_history =
                [\<lparr>tr_timestamp = 19, tr_symbol = ''AAPL'', tr_action = buy, tr_price = 100,
                   tr_size = 10, tr_commission = 1, tr_pnl = 0\<rparr>,
                 \<lparr>tr_timestamp = 20, tr_symbol = ''AAPL'', tr_action = sell, tr_price = 110,
                   tr_size = 10, tr_commission = 1.1, tr_pnl = 97.9\<rparr>]\<rparr>"
proof (intro conjI)
  show "calculate_pnl (Executor_init 0.001) ''AAPL'' 100 110 10 1
          = (110 - 100) * 10 - (100 + 110) * 10 * 0.001"
    and "calculate_pnl (Executor_init 0.001) ''AAPL'' 100 110 10 1 = 97.9"
    by (simp_all add: calculate_pnl_def Executor_init_def)
  show "rolling_std (map Close (warm_up @ [entry_bar])) = Some 10"
    using entry_volatility by (simp add: warm_up_closes)
  show "final_portfolio_value
        (projr (snd (run (Backtester_init 100000 0.001) ''AAPL'' RiskManager_default
            (warm_up @ [entry_bar]))))
      = 100000 - 1.0"
    unfolding run_entry_only by simp
  show "map tr_commission (trade_history
        (projr (snd (run (Backtester_init 100000 0.001) ''AAPL'' RiskManager_default
            (warm_up @ [entry_bar])))))
      = [1.0]"
    unfolding run_entry_only by simp
qed (rule run_round_trip)


section \<open>Simulated fills\<close>

text \<open>
  Claim C10.  In simulated mode a request of kind stop_loss, take_profit or trailing_stop
  returns an order that is pending with filled quantity 0, and the call leaves the position
  table and the trade list as they were.  An order that comes back filled from the
  simulated path is a market or a limit order.
\<close>

theorem simulated_stop_orders_never_fill:
  assumes "\<not> live h"
  shows "(ot = STOP_LOSS \<or> ot = TAKE_PROFIT \<or> ot = TRAILING_STOP \<longrightarrow>
            (\<exists>ord. create_order h reply now symb ot sd qty pr sp tp
                      = (h\<lparr>orders := orders h @ [ord]\<rparr>, Inr ord)
                  \<and> status ord = pending \<and> filled_quantity ord = 0)
            \<and> positions (fst (create_order h reply now symb ot sd qty pr sp tp)) = positions h
            \<and> trades (fst (create_order h reply now symb ot sd qty pr sp tp)) = trades h)
       \<and> (\<forall>ord. snd (create_order h reply now symb ot sd qty pr sp tp) = Inr ord
                  \<and> status ord = filled \<longrightarrow> ot = MARKET \<or> ot = LIMIT)"
proof -
  let ?o = "Order_init symb ot sd qty pr sp tp now"
  have fresh: "status ?o = pending" "filled_quantity ?o = 0" "order_type ?o = ot"
    by (simp_all add: Order_init_def)
  have other: "execute_simulated_order h ?o = ((h, ?o), None)"
    if "ot \<noteq> MARKET" "ot \<noteq> LIMIT"
    using that fresh
    by (simp add: execute_simulated_order_def update_positions_def record_trade_def)
  have stays: "create_order h reply now symb ot sd qty pr sp tp
                 = (h\<lparr>orders := orders h @ [?o]\<rparr>, Inr ?o)"
    if "ot \<noteq> MARKET" "ot \<noteq> LIMIT"
    using assms other [OF that] by (simp add: create_order_def)
  show ?thesis
  proof (intro conjI impI allI)
    assume "ot = STOP_LOSS \<or> ot = TAKE_PROFIT \<or> ot = TRAILING_STOP"
    then have ne: "ot \<noteq> MARKET" "ot \<noteq> LIMIT" by auto
    show "\<exists>ord. create_order h reply now symb ot sd qty pr sp tp
                  = (h\<lparr>orders := orders h @ [ord]\<rparr>, Inr ord)
              \<and> status ord = pending \<and> filled_quantity ord = 0"
      using stays [OF ne] fresh by blast
    show "positions (fst (create_order h reply now symb ot sd qty pr sp tp)) = positions h"
      using stays [OF ne] by simp
    show "trades (fst (create_order h reply now symb ot sd qty pr sp tp)) = trades h"
      using stays [OF ne] by simp
  next
    fix ord
    assume a: "snd (create_order h reply now symb ot sd qty pr sp tp) = Inr ord
                 \<and> status ord = filled"
    show "ot = MARKET \<or> ot = LIMIT"
    proof (rule ccontr)
      assume "\<not> (ot = MARKET \<or> ot = LIMIT)"
      then have ne: "ot \<noteq> MARKET" "ot \<noteq> LIMIT" by auto
      from stays [OF ne] a fresh show False by simp
    qed
  qed
qed

theorem simulated_stop_orders_never_fill_witness:
  "\<not> live (ExecutionHandler_init 0.001 0.001 False)
   \<and> status (projr (snd (create_order (ExecutionHandler_init 0.001 0.001 False) ExchangeRaises 0
                            ''AAPL'' STOP_LOSS SELL 10 (Some 100) (Some 95) None))) = pending
   \<and> filled_quantity
        (projr (snd (create_order (ExecutionHandler_init 0.001 0.001 False) ExchangeRaises 0
                            ''AAPL'' STOP_LOSS SELL 10 (Some 100) (Some 95) None))) = 0
   \<and> positions (fst (create_order (ExecutionHandler_init 0.001 0.001 False) ExchangeRaises 0
                            ''AAPL'' STOP_LOSS SELL 10 (Some 100) (Some 95) None)) = []
   \<and> trades (fst (create_order (ExecutionHandler_init 0.001 0.001 False) ExchangeRaises 0
                            ''AAPL'' STOP_LOSS SELL 10 (Some 100) (Some 95) None)) = []"
  using simulated_stop_orders_never_fill
          [where h = "ExecutionHandler_init 0.001 0.001 False" and ot = STOP_LOSS
             and reply = ExchangeRaises and now = 0 and symb = "''AAPL''" and sd = SELL
             and qty = 10 and pr = "Some 100" and sp = "Some 95" and tp = None]
  by (auto simp add: ExecutionHandler_init_def)

text \<open>
  Claim C3.  A new market order with a price is filled in full at price times
  (1 + slippage) for a buy and price times (1 - slippage) for a sell.  A new limit order
  with a limit price and a reference price is filled, in full and at the limit price,
  exactly when it is marketable (buy: limit at or above the reference, sell: limit at or
  below it); otherwise it stays pending with filled quantity 0 and nothing else changes.
  A filled order of non-zero quantity raises nothing.
\<close>

theorem simulated_fill_rule:
  assumes run: "execute_simulated_order h (Order_init symb ot sd qty pr sp tp now)
                  = ((h', ord'), err)"
  shows "(ot = MARKET \<and> pr = Some p \<longrightarrow>
            status ord' = filled \<and> filled_quantity ord' = qty
          \<and> filled_price ord'
              = Some (if sd = BUY then p * (1 + slippage h) else p * (1 - slippage h))
          \<and> (qty \<noteq> 0 \<longrightarrow> err = None))
       \<and> (ot = LIMIT \<and> pr = Some p \<and> sp = Some s \<longrightarrow>
            (status ord' = filled \<longleftrightarrow> (if sd = BUY then p \<ge> s else p \<le> s))
          \<and> (status ord' = filled \<longrightarrow>
                filled_quantity ord' = qty \<and> filled_price ord' = Some p
              \<and> (qty \<noteq> 0 \<longrightarrow> err = None))
          \<and> (status ord' \<noteq> filled \<longrightarrow>
                status ord' = pending \<and> filled_quantity ord' = 0 \<and> h' = h \<and> err = None))"
proof -
  have mk: "status ord' = filled \<and> filled_quantity ord' = qty
          \<and> filled_price ord'
              = Some (if sd = BUY then p * (1 + slippage h) else p * (1 - slippage h))
          \<and> (qty \<noteq> 0 \<longrightarrow> err = None)"
    if "ot = MARKET" "pr = Some p"
    using that run
    by (cases sd) (auto simp add: execute_simulated_order_def Order_init_def Let_def
                     update_positions_def record_trade_def no_position_def algebra_simps
                     split: prod.splits option.splits if_splits)
  have lm_fill: "status ord' = filled \<and> filled_quantity ord' = qty
                  \<and> filled_price ord' = Some p \<and> (qty \<noteq> 0 \<longrightarrow> err = None)"
    if "ot = LIMIT" "pr = Some p" "sp = Some s" "if sd = BUY then p \<ge> s else p \<le> s"
    using that run
    by (cases sd) (auto simp add: execute_simulated_order_def Order_init_def Let_def
                     update_positions_def record_trade_def no_position_def
                     split: prod.splits option.splits if_splits)
  have lm_rest: "status ord' = pending \<and> filled_quantity ord' = 0 \<and> h' = h \<and> err = None"
    if "ot = LIMIT" "pr = Some p" "sp = Some s" "\<not> (if sd = BUY then p \<ge> s else p \<le> s)"
    using that run
    by (cases sd) (auto simp add: execute_simulated_order_def Order_init_def Let_def
                     update_positions_def record_trade_def)
  show ?thesis
    using mk lm_fill lm_rest by (cases "if sd = BUY then p \<ge> s else p \<le> s") auto
qed

theorem simulated_fill_rule_witness:
  "status (snd (fst (execute_simulated_order (ExecutionHandler_init 0.001 0.001 False)
             (Order_init ''AAPL'' MARKET BUY 10 (Some 100) None None 0)))) = filled
   \<and> filled_price (snd (fst (execute_simulated_order (ExecutionHandler_init 0.001 0.001 False)
             (Order_init ''AAPL'' MARKET BUY 10 (Some 100) None None 0)))) = Some 100.1
   \<and> filled_price (snd (fst (execute_simulated_order (ExecutionHandler_init 0.001 0.001 False)
             (Order_init ''AAPL'' MARKET SELL 10 (Some 100) None None 0)))) = Some 99.9
   \<and> status (snd (fst (execute_simulated_order (ExecutionHandler_init 0.001 0.001 False)
             (Order_init ''AAPL'' LIMIT BUY 10 (Some 100) (Some 110) None 0)))) = pending
   \<and> filled_price (snd (fst (execute_simulated_order (ExecutionHandler_init 0.001 0.001 False)
             (Order_init ''AAPL'' LIMIT BUY 10 (Some 100) (Some 90) None 0)))) = Some 100"
  using simulated_fill_rule [OF triple_collapse, where ot = MARKET and sd = BUY and pr = "Some 100" and p = 100
          and h = "ExecutionHandler_init 0.001 0.001 False" and symb = "''AAPL''" and qty = 10
          and sp = None and tp = None and now = 0]
        simulated_fill_rule [OF triple_collapse, where ot = MARKET and sd = SELL and pr = "Some 100" and p = 100
          and h = "ExecutionHandler_init 0.001 0.001 False" and symb = "''AAPL''" and qty = 10
          and sp = None and tp = None and now = 0]
        simulated_fill_rule [OF triple_collapse, where ot = LIMIT and sd = BUY and pr = "Some 100" and p = 100
          and h = "ExecutionHandler_init 0.001 0.001 False" and symb = "''AAPL''" and qty = 10
          and sp = "Some 110" and s = 110 and tp = None and now = 0]
        simulated_fill_rule [OF triple_collapse, where ot = LIMIT and sd = BUY and pr = "Some 100" and p = 100
          and h = "ExecutionHandler_init 0.001 0.001 False" and symb = "''AAPL''" and qty = 10
          and sp = "Some 90" and s = 90 and tp = None and now = 0]
  by (simp add: ExecutionHandler_init_def)

section \<open>Cancelling\<close>

lemma update_positions_frame:
  "orders (fst (update_positions h ord)) = orders h \<and> live (fst (update_positions h ord)) = live h"
  by (simp add: update_positions_def Let_def split: option.splits)

lemma record_trade_frame:
  "orders (fst (record_trade h ord)) = orders h \<and> live (fst (record_trade h ord)) = live h"
  by (simp add: record_trade_def Let_def split: option.splits)

lemma execute_live_order_frame:
  "orders (fst (fst (execute_live_order h reply ord))) = orders h
   \<and> live (fst (fst (execute_live_order h reply ord))) = live h
   \<and> (snd (execute_live_order h reply ord) = None
        \<longrightarrow> status (snd (fst (execute_live_order h reply ord))) = filled)"
proof (cases reply)
  case (ReplyPrice rp)
  let ?o = "ord\<lparr>status := filled, filled_quantity := quantity ord, filled_price := rp\<rparr>"
  show ?thesis
    using ReplyPrice update_positions_frame [of h ?o]
          record_trade_frame [of "fst (update_positions h ?o)" ?o]
    by (auto simp add: execute_live_order_def Let_def split: prod.splits option.splits)
qed (simp_all add: execute_live_order_def)

lemma execute_simulated_order_frame:
  "orders (fst (fst (execute_simulated_order h ord))) = orders h
   \<and> live (fst (fst (execute_simulated_order h ord))) = live h"
proof -
  have step: "orders (fst (fst (case update_positions h o' of
                 (h', Some e) \<Rightarrow> ((h', o'), Some e)
               | (h', None) \<Rightarrow> (case record_trade h' o' of (h'', r) \<Rightarrow> ((h'', o'), r))))) = orders h
        \<and> live (fst (fst (case update_positions h o' of
                 (h', Some e) \<Rightarrow> ((h', o'), Some e)
               | (h', None) \<Rightarrow> (case record_trade h' o' of (h'', r) \<Rightarrow> ((h'', o'), r))))) = live h"
    for o'
    using update_positions_frame [of h o']
          record_trade_frame [of "fst (update_positions h o')" o']
    by (auto split: prod.splits option.splits)
  show ?thesis
    unfolding execute_simulated_order_def Let_def
    using step by (auto split: sum.splits option.splits prod.splits if_splits)
qed

lemma create_order_live:
  "live (fst (create_order h reply now symb ot sd qty pr sp tp)) = live h"
  using execute_live_order_frame [of h reply "Order_init symb ot sd qty pr sp tp now"]
        execute_simulated_order_frame [of h "Order_init symb ot sd qty pr sp tp now"]
  by (auto simp add: create_order_def Let_def split: prod.splits option.splits)

lemma create_order_stored_filled:
  assumes "live h" "stored_orders_filled h"
  shows "stored_orders_filled (fst (create_order h reply now symb ot sd qty pr sp tp))"
  using assms execute_live_order_frame [of h reply "Order_init symb ot sd qty pr sp tp now"]
  by (auto simp add: create_order_def Let_def stored_orders_filled_def
        split: prod.splits option.splits)

lemma cancel_stored_live:
  assumes "live h" "stored_orders_filled h" "i < length (orders h)"
  shows "cancel_stored_order h i = (False, h)"
  using assms by (simp add: cancel_stored_order_def cancel_order_def)

lemma perform_live: "live (perform h c) = live h"
  by (cases c) (simp_all add: create_order_live cancel_stored_order_def split: prod.splits)

lemma perform_stored_filled:
  assumes "live h" "stored_orders_filled h"
  shows "stored_orders_filled (perform h c)"
  using assms
  by (cases c) (simp_all add: create_order_stored_filled cancel_stored_live)

lemma foldl_perform_live: "live (foldl perform h cs) = live h"
  by (induction cs arbitrary: h) (simp_all add: perform_live)

lemma foldl_perform_stored_filled:
  "live h \<Longrightarrow> stored_orders_filled h \<Longrightarrow> stored_orders_filled (foldl perform h cs)"
  by (induction cs arbitrary: h) (simp_all add: perform_live perform_stored_filled)

lemma live_handler_stores_filled:
  "stored_orders_filled (foldl perform (ExecutionHandler_init c s True) cs)
   \<and> live (foldl perform (ExecutionHandler_init c s True) cs)"
proof -
  have "live (ExecutionHandler_init c s True)"
    and "stored_orders_filled (ExecutionHandler_init c s True)"
    by (simp_all add: stored_orders_filled_def ExecutionHandler_init_def)
  then show ?thesis
    by (simp add: foldl_perform_live foldl_perform_stored_filled)
qed

text \<open>
  Claim C8.  \<open>cancel_order\<close> succeeds, returning true and marking the order cancelled,
  exactly when the order is pending; an order that is not pending gets the answer false
  and stays as it is, and so does the handler that holds it.  This holds in simulated mode
  for every order, and in either mode for every order held by a handler that started new
  and was used through its calls: in live mode such a handler holds filled orders only.
\<close>

theorem cancel_order_iff_pending:
  assumes "h = foldl perform (ExecutionHandler_init c s l) cs"
  shows "(\<not> live h \<longrightarrow>
            (fst (cancel_order h ord) \<longleftrightarrow> status ord = pending)
          \<and> (status ord = pending \<longrightarrow> snd (cancel_order h ord) = ord\<lparr>status := cancelled\<rparr>))
       \<and> (status ord \<noteq> pending \<longrightarrow> cancel_order h ord = (False, ord))
       \<and> (i < length (orders h) \<longrightarrow>
            (fst (cancel_stored_order h i) \<longleftrightarrow> status (orders h ! i) = pending)
          \<and> (status (orders h ! i) = pending \<longrightarrow>
                snd (cancel_stored_order h i)
                  = h\<lparr>orders := (orders h)[i := (orders h ! i)\<lparr>status := cancelled\<rparr>]\<rparr>)
          \<and> (status (orders h ! i) \<noteq> pending \<longrightarrow> cancel_stored_order h i = (False, h)))"
proof (intro conjI impI)
  assume "\<not> live h"
  then show "fst (cancel_order h ord) \<longleftrightarrow> status ord = pending"
    by (simp add: cancel_order_def)
  assume "status ord = pending"
  with \<open>\<not> live h\<close> show "snd (cancel_order h ord) = ord\<lparr>status := cancelled\<rparr>"
    by (simp add: cancel_order_def)
next
  assume "status ord \<noteq> pending"
  then show "cancel_order h ord = (False, ord)" by (simp add: cancel_order_def)
next
  assume i: "i < length (orders h)"
  have no_pending: "status (orders h ! i) \<noteq> pending" if "live h"
  proof -
    from that assms have "l" by (simp add: foldl_perform_live ExecutionHandler_init_def)
    then have "stored_orders_filled h"
      using assms live_handler_stores_filled [of c s cs] by simp
    with i have "status (orders h ! i) = filled"
      by (simp add: stored_orders_filled_def)
    then show ?thesis by simp
  qed
  show "fst (cancel_stored_order h i) \<longleftrightarrow> status (orders h ! i) = pending"
    using no_pending by (cases "live h") (simp_all add: cancel_stored_order_def cancel_order_def)
  show "status (orders h ! i) = pending \<Longrightarrow>
          snd (cancel_stored_order h i)
            = h\<lparr>orders := (orders h)[i := (orders h ! i)\<lparr>status := cancelled\<rparr>]\<rparr>"
    using no_pending by (cases "live h") (simp_all add: cancel_stored_order_def cancel_order_def)
  show "status (orders h ! i) \<noteq> pending \<Longrightarrow> cancel_stored_order h i = (False, h)"
    by (simp add: cancel_stored_order_def cancel_order_def)
qed


theorem cancel_order_iff_pending_witness:
  "fst (cancel_stored_order
          (foldl perform (ExecutionHandler_init 0.001 0.001 False)
             [Create_order ExchangeRaises 0 ''AAPL'' LIMIT BUY 1 (Some 100) (Some 110) None]) 0)
   \<and> map status (orders (snd (cancel_stored_order
          (foldl perform (ExecutionHandler_init 0.001 0.001 False)
             [Create_order ExchangeRaises 0 ''AAPL'' LIMIT BUY 1 (Some 100) (Some 110) None]) 0)))
       = [cancelled]
   \<and> map status (orders
          (foldl perform (ExecutionHandler_init 0.001 0.001 True)
             [Create_order (ReplyPrice (Some 100)) 0 ''AAPL'' MARKET BUY 1 None None None]))
       = [filled]
   \<and> cancel_stored_order
          (foldl perform (ExecutionHandler_init 0.001 0.001 True)
             [Create_order (ReplyPrice (Some 100)) 0 ''AAPL'' MARKET BUY 1 None None None]) 0
       = (False,
          foldl perform (ExecutionHandler_init 0.001 0.001 True)
             [Create_order (ReplyPrice (Some 100)) 0 ''AAPL'' MARKET BUY 1 None None None])"
proof -
  let ?sim = "foldl perform (ExecutionHandler_init 0.001 0.001 False)
             [Create_order ExchangeRaises 0 ''AAPL'' LIMIT BUY 1 (Some 100) (Some 110) None]"
  let ?liv = "foldl perform (ExecutionHandler_init 0.001 0.001 True)
             [Create_order (ReplyPrice (Some 100)) 0 ''AAPL'' MARKET BUY 1 None None None]"
  have sim: "map status (orders ?sim) = [pending]"
    by (simp add: ExecutionHandler_init_def Order_init_def create_order_def
          execute_simulated_order_def update_positions_def record_trade_def Let_def)
  have liv: "map status (orders ?liv) = [filled]"
    by (simp add: ExecutionHandler_init_def Order_init_def create_order_def
          execute_live_order_def update_positions_def record_trade_def no_position_def Let_def)
  have sim0: "0 < length (orders ?sim)" "status (orders ?sim ! 0) = pending"
    using sim by (auto simp add: map_eq_Cons_conv)
  have liv0: "0 < length (orders ?liv)" "status (orders ?liv ! 0) \<noteq> pending"
    using liv by (auto simp add: map_eq_Cons_conv)
  note a = cancel_order_iff_pending [OF refl, of "0.001" "0.001" False
             "[Create_order ExchangeRaises 0 ''AAPL'' LIMIT BUY 1 (Some 100) (Some 110) None]"
             _ 0]
  note b = cancel_order_iff_pending [OF refl, of "0.001" "0.001" True
             "[Create_order (ReplyPrice (Some 100)) 0 ''AAPL'' MARKET BUY 1 None None None]"
             _ 0]
  from a sim0 have 1: "fst (cancel_stored_order ?sim 0)"
    and 2: "snd (cancel_stored_order ?sim 0)
              = ?sim\<lparr>orders := (orders ?sim)[0 := (orders ?sim ! 0)\<lparr>status := cancelled\<rparr>]\<rparr>"
    by blast+
  from b liv0 have 3: "cancel_stored_order ?liv 0 = (False, ?liv)"
    by blast
  have 4: "map status (orders (snd (cancel_stored_order ?sim 0))) = [cancelled]"
    unfolding 2 using sim by (auto simp add: map_eq_Cons_conv)
  from 1 4 liv 3 show ?thesis by blast
qed

section \<open>Position updates\<close>

lemma long_book_positions:
  "positions long_book
     = [(''AAPL'', \<lparr>pos_quantity = 10, average_price = 100, realized_pnl = 0\<rparr>)]"
  by (simp add: long_book_def ExecutionHandler_init_def Order_init_def create_order_def
        execute_simulated_order_def update_positions_def record_trade_def no_position_def)

lemma short_book_positions:
  "positions short_book
     = [(''AAPL'', \<lparr>pos_quantity = - 10, average_price = 100, realized_pnl = 0\<rparr>)]"
  by (simp add: short_book_def ExecutionHandler_init_def Order_init_def create_order_def
        execute_simulated_order_def update_positions_def record_trade_def no_position_def)

text \<open>
  What \<open>update_positions\<close> does with a fill against an existing position.  A filled sell
  against a long position adds (fill price - average price) times the fill quantity times
  the sign of the position to the realized PnL and takes the fill quantity off the
  quantity.  A filled buy against a short position moves the quantity towards zero by the
  fill quantity.  In both cases the entry is deleted when the quantity reaches exactly
  zero, and nothing is raised.
\<close>

lemma opposite_fill_update:
  assumes "status ord = filled" and "filled_price ord = Some fp"
      and "map_of (positions h) (symbol ord) = Some p"
      and "update_positions h ord = (h', err)"
  shows "(side ord = SELL \<and> pos_quantity p > 0 \<longrightarrow>
            err = None
          \<and> (if pos_quantity p - filled_quantity ord = 0
              then map_of (positions h') (symbol ord) = None
              else \<exists>p'. map_of (positions h') (symbol ord) = Some p'
                     \<and> realized_pnl p' - realized_pnl p
                         = (fp - average_price p) * filled_quantity ord * sgn (pos_quantity p)
                     \<and> pos_quantity p' = pos_quantity p - filled_quantity ord))
       \<and> (side ord = BUY \<and> pos_quantity p < 0 \<longrightarrow>
            err = None
          \<and> (if pos_quantity p + filled_quantity ord = 0
              then map_of (positions h') (symbol ord) = None
              else \<exists>p'. map_of (positions h') (symbol ord) = Some p'
                     \<and> pos_quantity p' = pos_quantity p + filled_quantity ord))"
  using assms
  by (auto simp add: update_positions_def Let_def update_conv' delete_conv' split: if_splits)

lemma opposite_fill_update_examples:
  "realized_pnl (get_position (fst (update_positions long_book (filled_order SELL 4 110))) ''AAPL'')
     = 40
   \<and> pos_quantity (get_position (fst (update_positions long_book (filled_order SELL 4 110))) ''AAPL'')
     = 6
   \<and> map_of (positions (fst (update_positions long_book (filled_order SELL 10 110)))) ''AAPL''
     = None
   \<and> pos_quantity (get_position (fst (update_positions short_book (filled_order BUY 5 90))) ''AAPL'')
     = - 5
   \<and> map_of (positions (fst (update_positions short_book (filled_order BUY 10 90)))) ''AAPL''
     = None"
proof -
  have l: "map_of (positions long_book) ''AAPL''
             = Some \<lparr>pos_quantity = 10, average_price = 100, realized_pnl = 0\<rparr>"
    by (simp add: long_book_positions)
  have s: "map_of (positions short_book) ''AAPL''
             = Some \<lparr>pos_quantity = - 10, average_price = 100, realized_pnl = 0\<rparr>"
    by (simp add: short_book_positions)
  have f: "status (filled_order sd q fp) = filled" "filled_price (filled_order sd q fp) = Some fp"
          "symbol (filled_order sd q fp) = ''AAPL''" "side (filled_order sd q fp) = sd"
          "filled_quantity (filled_order sd q fp) = q" for sd q fp
    by (simp_all add: filled_order_def Order_init_def)
  have la: "map_of (positions long_book) (symbol (filled_order SELL q fp))
             = Some \<lparr>pos_quantity = 10, average_price = 100, realized_pnl = 0\<rparr>" for q fp
    by (simp add: f l)
  have sa: "map_of (positions short_book) (symbol (filled_order BUY q fp))
             = Some \<lparr>pos_quantity = - 10, average_price = 100, realized_pnl = 0\<rparr>" for q fp
    by (simp add: f s)
  note a = opposite_fill_update [OF f(1) f(2) la pair_collapse, of 4 110]
  note b = opposite_fill_update [OF f(1) f(2) la pair_collapse, of 10 110]
  note c = opposite_fill_update [OF f(1) f(2) sa pair_collapse, of 5 90]
  note d = opposite_fill_update [OF f(1) f(2) sa pair_collapse, of 10 90]
  show ?thesis
    using a b c d by (auto simp add: f get_position_def)
qed

text \<open>
  Claim C1.  Every fill in the opposite direction of an existing position adds
  (fill price - average price) times the closed quantity times the sign of the position to
  the realized PnL, reduces the quantity by the fill quantity and deletes the entry at
  quantity zero, for short positions as for long ones.  For a short position the code does
  not: on a handler that is short 10 at an average price of 100, a buy of 5 at 90 should
  realize (90 - 100) * 5 * (-1) = 50; the position goes to -5, its realized PnL stays 0 and
  its average price becomes 0.
\<close>

theorem short_cover_realizes_nothing:
  "get_position short_book ''AAPL''
     = \<lparr>pos_quantity = - 10, average_price = 100, realized_pnl = 0\<rparr>
   \<and> get_position
        (fst (create_order short_book ExchangeRaises 2 ''AAPL'' MARKET BUY 5 (Some 90) None None))
        ''AAPL''
     = \<lparr>pos_quantity = - 5, average_price = 0, realized_pnl = 0\<rparr>
   \<and> realized_pnl (get_position
        (fst (create_order short_book ExchangeRaises 2 ''AAPL'' MARKET BUY 5 (Some 90) None None))
        ''AAPL'') - realized_pnl (get_position short_book ''AAPL'')
     \<noteq> (90 - average_price (get_position short_book ''AAPL'')) * 5
          * sgn (pos_quantity (get_position short_book ''AAPL''))"
  by (simp add: get_position_def short_book_positions create_order_def Order_init_def
        execute_simulated_order_def update_positions_def record_trade_def no_position_def
        short_book_def ExecutionHandler_init_def)

section \<open>The position table never keeps a zero quantity\<close>

lemma set_alist_update: "set (AList.update k v al) \<subseteq> insert (k, v) (set al)"
  by (induction al) auto

lemma set_alist_delete: "set (AList.delete k al) \<subseteq> set al"
  by (auto simp add: AList.delete_eq)

lemma update_positions_keeps:
  assumes "no_zero_position h"
  shows "no_zero_position (fst (update_positions h ord))"
proof -
  have upd: "no_zero_position (h\<lparr>positions := AList.update k v (positions h)\<rparr>)"
    if "pos_quantity v \<noteq> 0" for k v
    using assms that set_alist_update [of k v "positions h"]
    by (auto simp add: no_zero_position_def)
  have del: "no_zero_position (h\<lparr>positions := AList.delete k (positions h)\<rparr>)" for k
    using assms set_alist_delete [of k "positions h"]
    by (auto simp add: no_zero_position_def)
  show ?thesis
    unfolding update_positions_def Let_def
    using assms upd del by (simp split: option.splits)
qed

lemma record_trade_positions: "positions (fst (record_trade h ord)) = positions h"
  by (simp add: record_trade_def Let_def split: option.splits)

lemma record_trade_keeps: "no_zero_position h \<Longrightarrow> no_zero_position (fst (record_trade h ord))"
  by (simp add: no_zero_position_def record_trade_positions)

lemma execute_simulated_order_keeps:
  assumes "no_zero_position h"
  shows "no_zero_position (fst (fst (execute_simulated_order h ord)))"
proof -
  have step: "no_zero_position (fst (fst (case update_positions h o' of
                 (h', Some e) \<Rightarrow> ((h', o'), Some e)
               | (h', None) \<Rightarrow> (case record_trade h' o' of (h'', r) \<Rightarrow> ((h'', o'), r)))))"
    for o'
    using update_positions_keeps [OF assms, of o']
          record_trade_keeps [of "fst (update_positions h o')" o']
    by (auto split: prod.splits option.splits)
  show ?thesis
    unfolding execute_simulated_order_def Let_def
    using assms step by (auto split: sum.splits option.splits prod.splits if_splits)
qed

lemma execute_live_order_keeps:
  assumes "no_zero_position h"
  shows "no_zero_position (fst (fst (execute_live_order h reply ord)))"
proof (cases reply)
  case (ReplyPrice rp)
  let ?o = "ord\<lparr>status := filled, filled_quantity := quantity ord, filled_price := rp\<rparr>"
  show ?thesis
    using ReplyPrice update_positions_keeps [OF assms, of ?o]
          record_trade_keeps [of "fst (update_positions h ?o)" ?o]
    by (auto simp add: execute_live_order_def Let_def split: prod.splits option.splits)
qed (use assms in \<open>simp_all add: execute_live_order_def\<close>)

lemma orders_update_keeps: "no_zero_position (h\<lparr>orders := os\<rparr>) = no_zero_position h"
  by (simp add: no_zero_position_def)

lemma create_order_keeps:
  assumes "no_zero_position h"
  shows "no_zero_position (fst (create_order h reply now symb ot sd qty pr sp tp))"
  using execute_live_order_keeps [OF assms, of reply "Order_init symb ot sd qty pr sp tp now"]
        execute_simulated_order_keeps [OF assms, of "Order_init symb ot sd qty pr sp tp now"]
  by (auto simp add: create_order_def Let_def orders_update_keeps
        split: prod.splits option.splits)

lemma perform_keeps: "no_zero_position h \<Longrightarrow> no_zero_position (perform h c)"
  by (cases c)
     (simp_all add: create_order_keeps cancel_stored_order_def orders_update_keeps
        split: prod.splits)

lemma foldl_perform_keeps:
  "no_zero_position h \<Longrightarrow> no_zero_position (foldl perform h cs)"
  by (induction cs arbitrary: h) (simp_all add: perform_keeps)

text \<open>
  Claim C4.  After any sequence of \<open>create_order\<close>, \<open>cancel_order\<close> and query calls on a new
  handler, in simulated or in live mode and whatever the calls raise, every entry of the
  position table has a quantity other than 0.
\<close>

theorem no_zero_quantity_residue:
  "no_zero_position (foldl perform (ExecutionHandler_init c s l) cs)"
  by (rule foldl_perform_keeps) (simp add: no_zero_position_def ExecutionHandler_init_def)

theorem no_zero_quantity_residue_witness:
  "positions (foldl perform (ExecutionHandler_init 0.001 0 False)
       [Create_order ExchangeRaises 0 ''AAPL'' MARKET BUY 10 (Some 100) None None,
        Create_order ExchangeRaises 1 ''MSFT'' LIMIT BUY 5 (Some 50) (Some 60) None,
        Cancel_stored 1,
        Get_position ''AAPL'',
        Create_order ExchangeRaises 2 ''AAPL'' MARKET SELL 4 (Some 110) None None])
     = [(''AAPL'', \<lparr>pos_quantity = 6, average_price = 100, realized_pnl = 40\<rparr>)]
   \<and> no_zero_position (foldl perform (ExecutionHandler_init 0.001 0 False)
       [Create_order ExchangeRaises 0 ''AAPL'' MARKET BUY 10 (Some 100) None None,
        Create_order ExchangeRaises 1 ''MSFT'' LIMIT BUY 5 (Some 50) (Some 60) None,
        Cancel_stored 1,
        Get_position ''AAPL'',
        Create_order ExchangeRaises 2 ''AAPL'' MARKET SELL 4 (Some 110) None None])"
proof (rule conjI)
  show "positions (foldl perform (ExecutionHandler_init 0.001 0 False)
       [Create_order ExchangeRaises 0 ''AAPL'' MARKET BUY 10 (Some 100) None None,
        Create_order ExchangeRaises 1 ''MSFT'' LIMIT BUY 5 (Some 50) (Some 60) None,
        Cancel_stored 1,
        Get_position ''AAPL'',
        Create_order ExchangeRaises 2 ''AAPL'' MARKET SELL 4 (Some 110) None None])
     = [(''AAPL'', \<lparr>pos_quantity = 6, average_price = 100, realized_pnl = 40\<rparr>)]"
    by (simp add: ExecutionHandler_init_def Order_init_def create_order_def
          execute_simulated_order_def update_positions_def record_trade_def no_position_def
          cancel_stored_order_def cancel_order_def Let_def)
qed (rule no_zero_quantity_residue)

end
